theory Spec2Isabelle
  imports Complex_Main "HOL-Library.Log_Nat"
begin

section \<open>Python values used by site-roast\<close>

text \<open>
  The exceptions that the modelled code can raise.  \<open>RequestException\<close> stands for every
  transport failure of \<open>requests\<close> (timeout, connection, TLS); \<open>HTTPError\<close> is what
  \<open>raise_for_status\<close> raises; \<open>JSONDecodeError\<close>, \<open>AttributeError\<close> and
  \<open>RecursionError\<close> are what \<open>json.loads\<close> can raise.
\<close>

datatype error =
    RequestException | HTTPError | ValueError | TypeError | ZeroDivisionError
  | JSONDecodeError | AttributeError | RecursionError

subsection \<open>Strings\<close>

text \<open>
  A Python \<open>str\<close> is modelled as a list of characters with code points below 256.
  \<open>is_space\<close> is \<open>str.isspace\<close> on that range, \<open>lower_char\<close> is \<open>str.lower\<close>.
\<close>

definition is_space :: "char \<Rightarrow> bool" where
  "is_space c = (let n = (of_char c :: nat) in
     (9 \<le> n \<and> n \<le> 13) \<or> (28 \<le> n \<and> n \<le> 32) \<or> n = 133 \<or> n = 160)"

definition is_digit :: "char \<Rightarrow> bool" where
  "is_digit c = (let n = (of_char c :: nat) in 48 \<le> n \<and> n \<le> 57)"

definition lower_char :: "char \<Rightarrow> char" where
  "lower_char c = (let n = (of_char c :: nat) in
     if (65 \<le> n \<and> n \<le> 90) \<or> (192 \<le> n \<and> n \<le> 222 \<and> n \<noteq> 215)
     then char_of (n + 32) else c)"

definition lower :: "string \<Rightarrow> string" where
  "lower s = map lower_char s"

definition strip :: "string \<Rightarrow> string" where
  "strip s = rev (dropWhile is_space (rev (dropWhile is_space s)))"

fun startswith :: "string \<Rightarrow> string \<Rightarrow> bool" where
  "startswith s [] = True"
| "startswith [] (p # ps) = False"
| "startswith (c # cs) (p # ps) = (c = p \<and> startswith cs ps)"

text \<open>\<open>contains sub s\<close> is Python's \<open>sub in s\<close> on strings.\<close>

fun contains :: "string \<Rightarrow> string \<Rightarrow> bool" where
  "contains sub [] = (sub = [])"
| "contains sub (c # cs) = (startswith (c # cs) sub \<or> contains sub cs)"

text \<open>\<open>join sep xs\<close> is \<open>sep.join(xs)\<close>.\<close>

fun join :: "string \<Rightarrow> string list \<Rightarrow> string" where
  "join sep [] = []"
| "join sep [x] = x"
| "join sep (x # y # ys) = x @ sep @ join sep (y # ys)"

text \<open>Decimal rendering of an integer, as \<open>str(n)\<close> and \<open>f"{n}"\<close> produce it.\<close>

fun str_nat :: "nat \<Rightarrow> string" where
  "str_nat n = (if n < 10 then [''0123456789'' ! n]
                else str_nat (n div 10) @ [''0123456789'' ! (n mod 10)])"

declare str_nat.simps [simp del]

definition str_int :: "int \<Rightarrow> string" where
  "str_int i = (if i < 0 then CHR ''-'' # str_nat (nat (- i)) else str_nat (nat i))"

subsection \<open>Floats\<close>

text \<open>
  A Python \<open>float\<close> is an IEEE 754 double.  \<open>Double m e\<close> is the number \<open>m * 2 ^ e\<close>; the
  operations below return it with \<open>2 ^ 52 \<le> \<bar>m\<bar> < 2 ^ 53\<close>, or as \<open>Double 0 0\<close>.  Every
  operation computes the exact rational result \<open>p / q\<close> and rounds it to the nearest
  double, ties to even (\<open>of_ratio\<close>).  The exponent is unbounded: overflow to infinity,
  subnormal numbers and the sign of zero are outside the model.
\<close>

datatype double = Double (mant: int) (expo: int)

definition num :: "double \<Rightarrow> int" where
  "num d = (if 0 \<le> expo d then mant d * 2 ^ nat (expo d) else mant d)"

definition den :: "double \<Rightarrow> int" where
  "den d = (if 0 \<le> expo d then 1 else 2 ^ nat (- expo d))"

text \<open>The rational number that a double denotes; \<open>num d / den d\<close> is the same number.\<close>

definition val :: "double \<Rightarrow> rat" where
  "val d = of_int (mant d) * 2 powi (expo d)"

text \<open>\<open>rne_div a b\<close> is \<open>a / b\<close> rounded to the nearest integer, ties to even (\<open>0 < b\<close>).\<close>

definition rne_div :: "int \<Rightarrow> int \<Rightarrow> int" where
  "rne_div a b = (let q = a div b; r = a mod b in
     if 2 * r < b then q else if b < 2 * r then q + 1 else if even q then q else q + 1)"

definition scale_le :: "int \<Rightarrow> int \<Rightarrow> int \<Rightarrow> bool" where
  "scale_le q d a = (if 0 \<le> d then q * 2 ^ nat d \<le> a else q \<le> a * 2 ^ nat (- d))"

text \<open>
  \<open>ratio_expo a q\<close> is the exponent of the unit in the last place of \<open>a / q\<close>, for
  \<open>0 < a\<close> and \<open>0 < q\<close>: \<open>floor (log2 (a / q)) - 52\<close>, found from the bit lengths.
  \<open>ratio_mant a q e\<close> is \<open>a / q\<close> in units of \<open>2 ^ e\<close>, rounded.
\<close>

definition ratio_expo :: "int \<Rightarrow> int \<Rightarrow> int" where
  "ratio_expo a q =
     (let d = int (floorlog 2 (nat a)) - int (floorlog 2 (nat q))
      in (if scale_le q d a then d else d - 1) - 52)"

definition ratio_mant :: "int \<Rightarrow> int \<Rightarrow> int \<Rightarrow> int" where
  "ratio_mant a q e =
     (if 0 \<le> e then rne_div a (q * 2 ^ nat e) else rne_div (a * 2 ^ nat (- e)) q)"

text \<open>\<open>of_ratio p q\<close> is the double nearest to \<open>p / q\<close>, for \<open>0 < q\<close>.\<close>

definition of_ratio :: "int \<Rightarrow> int \<Rightarrow> double" where
  "of_ratio p q =
     (if p = 0 then Double 0 0
      else let e = ratio_expo \<bar>p\<bar> q;
               m = ratio_mant \<bar>p\<bar> q e
           in if m = 2 ^ 53 then Double (sgn p * 2 ^ 52) (e + 1) else Double (sgn p * m) e)"

text \<open>\<open>float(i)\<close>, and the conversion of an \<open>int\<close> operand in mixed arithmetic.\<close>

definition float_of_int :: "int \<Rightarrow> double" where
  "float_of_int i = of_ratio i 1"

definition fadd :: "double \<Rightarrow> double \<Rightarrow> double" where
  "fadd x y = of_ratio (num x * den y + num y * den x) (den x * den y)"

definition fsub :: "double \<Rightarrow> double \<Rightarrow> double" where
  "fsub x y = of_ratio (num x * den y - num y * den x) (den x * den y)"

definition fmul :: "double \<Rightarrow> double \<Rightarrow> double" where
  "fmul x y = of_ratio (num x * num y) (den x * den y)"

text \<open>\<open>x / y\<close> on floats, and \<open>a / b\<close> on ints (true division, correctly rounded).\<close>

definition fdiv :: "double \<Rightarrow> double \<Rightarrow> error + double" where
  "fdiv x y = (if num y = 0 then Inl ZeroDivisionError
               else Inr (of_ratio (num x * den y * sgn (num y)) (den x * \<bar>num y\<bar>)))"

definition truediv :: "int \<Rightarrow> int \<Rightarrow> error + double" where
  "truediv a b = (if b = 0 then Inl ZeroDivisionError
                  else Inr (of_ratio (a * sgn b) \<bar>b\<bar>))"

text \<open>\<open>int(x)\<close> truncates toward zero; \<open>round(x)\<close> rounds to the nearest integer, ties to even.\<close>

definition trunc :: "double \<Rightarrow> int" where
  "trunc x = sgn (num x) * (\<bar>num x\<bar> div den x)"

definition py_round :: "double \<Rightarrow> int" where
  "py_round x = rne_div (num x) (den x)"

text \<open>Exact comparison of an \<open>int\<close> with a \<open>float\<close>.\<close>

definition int_lt_float :: "int \<Rightarrow> double \<Rightarrow> bool" where
  "int_lt_float i x = (i * den x < num x)"

definition float_gt_int :: "double \<Rightarrow> int \<Rightarrow> bool" where
  "float_gt_int x i = (i * den x < num x)"

text \<open>\<open>f"{x:.1f}"\<close> for \<open>0 \<le> x\<close>: one decimal, correctly rounded, ties to even.\<close>

definition fmt_1f :: "double \<Rightarrow> string" where
  "fmt_1f x = (let t = rne_div (10 * num x) (den x)
               in str_int (t div 10) @ ''.'' @ str_int (t mod 10))"

text \<open>The values that JSON and \<open>raw_data\<close> hold.\<close>

datatype pyval =
    PNone
  | PBool bool
  | PInt int
  | PFloat double
  | PStr string
  | PList "pyval list"
  | PDict "(string \<times> pyval) list"

section \<open>scores.py: ScoreCalculator\<close>

definition calculate_average :: "int list \<Rightarrow> int" where
  "calculate_average scores =
     (if scores = [] then 0
      else py_round (of_ratio (sum_list scores) (int (length scores))))"

definition score_to_grade :: "int \<Rightarrow> string" where
  "score_to_grade score =
     (if score \<ge> 97 then ''A+''
      else if score \<ge> 93 then ''A''
      else if score \<ge> 90 then ''A-''
      else if score \<ge> 87 then ''B+''
      else if score \<ge> 83 then ''B''
      else if score \<ge> 80 then ''B-''
      else if score \<ge> 77 then ''C+''
      else if score \<ge> 73 then ''C''
      else if score \<ge> 70 then ''C-''
      else if score \<ge> 67 then ''D+''
      else if score \<ge> 63 then ''D''
      else if score \<ge> 60 then ''D-''
      else ''F'')"

definition penalty :: "int \<Rightarrow> int \<Rightarrow> int \<Rightarrow> int" where
  "penalty score penalty_amount min_score = max min_score (score - penalty_amount)"

definition bonus :: "int \<Rightarrow> int \<Rightarrow> int \<Rightarrow> int" where
  "bonus score bonus_amount max_score = min max_score (score + bonus_amount)"

text \<open>
  \<open>weighted_average\<close>: the length check raises \<open>ValueError\<close>; when the weights do not sum
  to 100 each weight is replaced by the float \<open>w / total_weight * 100\<close>, and the division by
  a zero \<open>total_weight\<close> raises \<open>ZeroDivisionError\<close> at the first weight.  \<open>sum\<close> starts
  from the int 0 and adds the float terms from left to right.
\<close>

definition normalized_weight :: "int \<Rightarrow> int \<Rightarrow> double" where
  "normalized_weight total_weight w =
     fmul (of_ratio (w * sgn total_weight) \<bar>total_weight\<bar>) (float_of_int 100)"

definition weight_fraction :: "int \<Rightarrow> int \<Rightarrow> double" where
  "weight_fraction total_weight w =
     (if total_weight \<noteq> 100
      then of_ratio (num (normalized_weight total_weight w))
                    (den (normalized_weight total_weight w) * 100)
      else of_ratio w 100)"

definition weighted_average :: "int list \<Rightarrow> int list \<Rightarrow> error + int" where
  "weighted_average scores weights =
     (if length scores \<noteq> length weights then Inl ValueError
      else if scores = [] then Inr 0
      else let total_weight = sum_list weights in
        if total_weight \<noteq> 100 \<and> total_weight = 0 then Inl ZeroDivisionError
        else Inr (py_round (foldl fadd (Double 0 0)
               (map (\<lambda>(s, w). fmul (float_of_int s) (weight_fraction total_weight w))
                    (zip scores weights)))))"

section \<open>auditor.py: the data model\<close>

record AuditResult =
  score :: int
  max_score :: int
  findings :: "string list"
  recommendations :: "string list"
  raw_data :: "(string \<times> pyval) list"

text \<open>The dataclass constructor: \<open>max_score\<close> defaults to 100, the containers to empty.\<close>

definition mk_result :: "int \<Rightarrow> string list \<Rightarrow> string list \<Rightarrow> (string \<times> pyval) list \<Rightarrow> AuditResult" where
  "mk_result s f r d =
     \<lparr>score = s, max_score = 100, findings = f, recommendations = r, raw_data = d\<rparr>"

record WebsiteAudit =
  url :: string
  timestamp :: double
  duration_ms :: int
  title :: AuditResult
  meta_description :: AuditResult
  headings :: AuditResult
  images :: AuditResult
  mobile :: AuditResult
  ssl_security :: AuditResult
  performance :: AuditResult
  links :: AuditResult
  open_graph :: AuditResult
  schema :: AuditResult

definition category_scores :: "WebsiteAudit \<Rightarrow> int list" where
  "category_scores a =
     [score (title a), score (meta_description a), score (headings a), score (images a),
      score (mobile a), score (ssl_security a), score (performance a), score (links a),
      score (open_graph a), score (schema a)]"

definition get_overall_score :: "WebsiteAudit \<Rightarrow> int" where
  "get_overall_score a =
     py_round (of_ratio (sum_list (category_scores a)) (int (length (category_scores a))))"

definition get_grade :: "WebsiteAudit \<Rightarrow> string" where
  "get_grade a =
     (let score = get_overall_score a in
      if score \<ge> 97 then ''A+''
      else if score \<ge> 93 then ''A''
      else if score \<ge> 90 then ''A-''
      else if score \<ge> 87 then ''B+''
      else if score \<ge> 83 then ''B''
      else if score \<ge> 80 then ''B-''
      else if score \<ge> 77 then ''C+''
      else if score \<ge> 73 then ''C''
      else if score \<ge> 70 then ''C-''
      else if score \<ge> 67 then ''D+''
      else if score \<ge> 63 then ''D''
      else if score \<ge> 60 then ''D-''
      else ''F'')"

section \<open>The parsed document\<close>

text \<open>
  What \<open>BeautifulSoup(..., "html.parser")\<close> exposes to the analyzers.  An element has its
  tag name (lower case), its single-valued attributes, the token list of its \<open>rel\<close>
  attribute (which the parser splits for \<open>a\<close> and \<open>link\<close>), the text fragments below
  it in document order, and its \<open>.string\<close>.  A document is the list of its elements in
  document order, as \<open>find_all\<close> traverses them, and the list of its text nodes.
\<close>

record element =
  name :: string
  attrs :: "(string \<times> string) list"
  rel :: "string list option"
  strings :: "string list"
  el_string :: "string option"

record document =
  tags :: "element list"
  text_nodes :: "string list"

definition find_all :: "document \<Rightarrow> string \<Rightarrow> element list" where
  "find_all soup n = filter (\<lambda>e. name e = n) (tags soup)"

definition find_first :: "document \<Rightarrow> string \<Rightarrow> element option" where
  "find_first soup n = List.find (\<lambda>e. name e = n) (tags soup)"

text \<open>\<open>tag.get(key)\<close> for a single-valued attribute; \<open>None\<close> when it is absent.\<close>

definition get :: "element \<Rightarrow> string \<Rightarrow> string option" where
  "get e k = map_of (attrs e) k"

text \<open>\<open>soup.find("meta", attrs={key: v})\<close> and \<open>soup.find("meta", property=v)\<close>.\<close>

definition find_meta :: "document \<Rightarrow> string \<Rightarrow> string \<Rightarrow> element option" where
  "find_meta soup k v = List.find (\<lambda>e. name e = ''meta'' \<and> get e k = Some v) (tags soup)"

text \<open>\<open>tag.get_text(strip=True)\<close>: every fragment stripped, the empty ones dropped.\<close>

definition get_text_strip :: "element \<Rightarrow> string" where
  "get_text_strip e = concat (filter (\<lambda>s. s \<noteq> []) (map strip (strings e)))"

text \<open>\<open>soup.find_all("link", rel="stylesheet")\<close>: some token of \<open>rel\<close> is the word.\<close>

definition has_rel :: "element \<Rightarrow> string \<Rightarrow> bool" where
  "has_rel e w = (case rel e of None \<Rightarrow> False | Some toks \<Rightarrow> w \<in> set toks)"

definition stylesheets :: "document \<Rightarrow> element list" where
  "stylesheets soup = filter (\<lambda>e. name e = ''link'' \<and> has_rel e ''stylesheet'') (tags soup)"

definition quote :: string where
  "quote = [CHR 0x27]"

text \<open>U+2713, the check mark of two findings, written as its UTF-8 bytes.\<close>

definition check_mark :: string where
  "check_mark = [CHR 0xE2, CHR 0x9C, CHR 0x93]"

section \<open>auditor.py: the analyzers\<close>

subsection \<open>Title\<close>

definition generic_words :: "string list" where
  "generic_words = [''home'', ''untitled'', ''index'', ''page'', ''website'']"

definition no_title :: AuditResult where
  "no_title = mk_result 0 [''No title tag found'']
                [''Add a <title> tag to your <head> section''] []"

definition title_length_score :: "int \<Rightarrow> int \<times> string list \<times> string list" where
  "title_length_score title_length =
     (if 50 \<le> title_length \<and> title_length \<le> 60 then
        (100, [''Title length is optimal for search engines''], [])
      else if (30 \<le> title_length \<and> title_length < 50) \<or> (60 < title_length \<and> title_length \<le> 70) then
        (80, [''Title length is acceptable but could be improved''],
             [''Aim for 50-60 characters for optimal display''])
      else if title_length < 30 then
        (50, [''Title is too short''], [''Expand your title to 50-60 characters''])
      else
        (60, [''Title is too long and may be truncated in search results''],
             [''Shorten your title to 50-60 characters'']))"

definition audit_title :: "document \<Rightarrow> AuditResult" where
  "audit_title soup =
     (case find_first soup ''title'' of
        None \<Rightarrow> no_title
      | Some title_tag \<Rightarrow>
          let t = get_text_strip title_tag in
          if t = [] then no_title
          else
            let title_length = int (length t);
                f0 = [''Title found: '' @ quote @ t @ quote,
                      ''Title length: '' @ str_int title_length @ '' characters''];
                (s1, f1, r1) = title_length_score title_length;
                raw = [(''title'', PStr t), (''length'', PInt title_length)]
            in if list_ex (\<lambda>word. contains word (lower t)) generic_words
               then mk_result (max 0 (s1 - 30))
                      (f0 @ f1 @ [''Title appears to be generic''])
                      (r1 @ [''Use a descriptive, unique title that describes your page content''])
                      raw
               else mk_result s1 (f0 @ f1) r1 raw)"

subsection \<open>Meta description\<close>

definition generic_phrases :: "string list" where
  "generic_phrases = [''this is a website'', ''welcome to'', ''click here'', ''learn more'']"

definition desc_length_score :: "int \<Rightarrow> int \<times> string list \<times> string list" where
  "desc_length_score desc_length =
     (if 150 \<le> desc_length \<and> desc_length \<le> 160 then
        (100, [''Description length is optimal''], [])
      else if (120 \<le> desc_length \<and> desc_length < 150) \<or> (160 < desc_length \<and> desc_length \<le> 170) then
        (85, [''Description length is good''],
             [''Aim for 150-160 characters for optimal display''])
      else if desc_length < 120 then
        (60, [''Description is too short''], [''Expand your description to 150-160 characters''])
      else
        (70, [''Description is too long and may be truncated''],
             [''Shorten your description to 150-160 characters'']))"

definition audit_meta_description :: "document \<Rightarrow> AuditResult" where
  "audit_meta_description soup =
     (case find_meta soup ''name'' ''description'' of
        None \<Rightarrow>
          mk_result 0 [''No meta description found'']
            [''Add a meta description: <meta name='' @ quote @ ''description'' @ quote
               @ '' content='' @ quote @ ''...'' @ quote @ ''>''] []
      | Some meta_desc \<Rightarrow>
          let content = strip (case get meta_desc ''content'' of None \<Rightarrow> [] | Some c \<Rightarrow> c);
              desc_length = int (length content);
              f0 = [''Meta description found'',
                    ''Description length: '' @ str_int desc_length @ '' characters'']
          in if content = [] then
               mk_result 10 (f0 @ [''Meta description is empty''])
                 [''Add meaningful content to your meta description''] []
             else
               let (s1, f1, r1) = desc_length_score desc_length;
                   raw = [(''description'', PStr content), (''length'', PInt desc_length)]
               in if list_ex (\<lambda>phrase. contains phrase (lower content)) generic_phrases
                  then mk_result (max 0 (s1 - 20))
                         (f0 @ f1 @ [''Description appears to be generic''])
                         (r1 @ [''Write a compelling, unique description that entices clicks''])
                         raw
                  else mk_result s1 (f0 @ f1) r1 raw)"

subsection \<open>Headings\<close>

definition heading_names :: "string list" where
  "heading_names = [''h1'', ''h2'', ''h3'', ''h4'', ''h5'', ''h6'']"

text \<open>\<open>int(tag.name[1])\<close> on a tag named \<open>h1\<close> .. \<open>h6\<close>.\<close>

definition heading_level :: "element \<Rightarrow> nat" where
  "heading_level tag = of_char (name tag ! 1) - 48"

text \<open>The loop over \<open>heading_levels\<close> that collects the skipped levels.\<close>

fun skipped_levels :: "nat \<Rightarrow> nat list \<Rightarrow> string list" where
  "skipped_levels prev_level [] = []"
| "skipped_levels prev_level (level # rest) =
     (if level > prev_level + 1
      then [''H'' @ str_nat prev_level @ '' -> H'' @ str_nat level]
      else []) @ skipped_levels level rest"

definition h1_check :: "element list \<Rightarrow> int \<times> string list \<times> string list" where
  "h1_check h1_tags =
     (if length h1_tags = 0 then
        (max 0 (100 - 40), [''No H1 tag found - every page needs one main heading''],
         [''Add an H1 tag that describes your main content''])
      else if length h1_tags > 1 then
        (max 0 (100 - 20),
         [''Multiple H1 tags found ('' @ str_nat (length h1_tags) @ ''). Use only one H1 per page.''],
         [''Consolidate to a single H1 tag''])
      else
        let h1_text = get_text_strip (hd h1_tags) in
        if h1_text \<noteq> [] then
          (100, [''H1 content: '' @ quote @ take 50 h1_text @ ''...'' @ quote], [])
        else
          (max 0 (100 - 15), [''H1 tag is empty''], [''Add text content to your H1 tag'']))"

definition audit_headings :: "document \<Rightarrow> AuditResult" where
  "audit_headings soup =
     (let h1_tags = find_all soup ''h1'';
          h2_tags = find_all soup ''h2'';
          h3_tags = find_all soup ''h3'';
          all_headings = filter (\<lambda>e. name e \<in> set heading_names) (tags soup);
          f0 = [''Found '' @ str_nat (length h1_tags) @ '' H1, '' @ str_nat (length h2_tags)
                @ '' H2, '' @ str_nat (length h3_tags) @ '' H3 tags''];
          (s1, f1, r1) = h1_check h1_tags;
          skipped = skipped_levels 0 (map heading_level all_headings);
          (s2, f2, r2) =
            (if skipped \<noteq> [] then
               (max 0 (s1 - 10),
                [''Skipped heading levels detected: '' @ join '', '' (take 3 skipped)],
                [''Maintain proper heading hierarchy (don't skip from H1 to H3)''])
             else (s1, [], []));
          (s3, f3, r3) =
            (if length all_headings = 0 then
               (0, [''No heading tags found at all''],
                [''Structure your content with proper heading tags (H1-H6)''])
             else (s2, [], []))
      in mk_result s3 (f0 @ f1 @ f2 @ f3) (r1 @ r2 @ r3)
           [(''h1_count'', PInt (int (length h1_tags))),
            (''h2_count'', PInt (int (length h2_tags))),
            (''h3_count'', PInt (int (length h3_tags))),
            (''total_headings'', PInt (int (length all_headings)))])"

subsection \<open>Images\<close>

text \<open>
  The loop that classifies each image by \<open>img.get("alt")\<close>: the attribute is absent, or
  present and blank after \<open>strip\<close>, or present with text.  The state is the pair
  \<open>(missing_alt, empty_alt)\<close>.
\<close>

fun count_alt :: "element list \<Rightarrow> int \<times> int \<Rightarrow> int \<times> int" where
  "count_alt [] acc = acc"
| "count_alt (img # rest) (missing_alt, empty_alt) =
     (case get img ''alt'' of
        None \<Rightarrow> count_alt rest (missing_alt + 1, empty_alt)
      | Some alt \<Rightarrow>
          if strip alt = [] then count_alt rest (missing_alt, empty_alt + 1)
          else count_alt rest (missing_alt, empty_alt))"

text \<open>\<open>int((with_alt / total_images) * 100)\<close>, for \<open>total_images > 0\<close>.\<close>

definition coverage_score :: "int \<Rightarrow> int \<Rightarrow> int" where
  "coverage_score with_alt total_images =
     trunc (fmul (of_ratio with_alt total_images) (float_of_int 100))"

text \<open>The float literal \<open>0.5\<close>.\<close>

definition half :: double where
  "half = Double (2 ^ 52) (- 53)"

definition audit_images :: "document \<Rightarrow> AuditResult" where
  "audit_images soup =
     (let imgs = find_all soup ''img'';
          total_images = int (length imgs);
          f0 = [''Found '' @ str_int total_images @ '' image(s)'']
      in if total_images = 0 then
           mk_result 70 (f0 @ [''No images on page - consider adding visual content'']) [] []
         else
           let (missing_alt, empty_alt) = count_alt imgs (0, 0);
               with_alt = total_images - missing_alt - empty_alt;
               f1 = [''Images with alt text: '' @ str_int with_alt @ ''/'' @ str_int total_images]
                    @ (if missing_alt > 0 then [''Missing alt attributes: '' @ str_int missing_alt] else [])
                    @ (if empty_alt > 0 then [''Empty alt attributes: '' @ str_int empty_alt] else []);
               s0 = coverage_score with_alt total_images;
               (s1, r1) = (if missing_alt > 0
                           then (max 0 (s0 - 10),
                                 [''Add alt attributes to '' @ str_int missing_alt @ '' image(s)''])
                           else (s0, []));
               (s2, r2) = (if empty_alt > 0
                           then (max 0 (s1 - 5),
                                 [''Add descriptive alt text to '' @ str_int empty_alt @ '' image(s)''])
                           else (s1, []));
               lazy_loaded = int (length (filter (\<lambda>img. get img ''loading'' = Some ''lazy'') imgs));
               r3 = (if int_lt_float lazy_loaded (fmul (float_of_int total_images) half)
                        \<and> total_images > 5
                     then [''Consider adding loading='' @ quote @ ''lazy'' @ quote
                           @ '' to images below the fold'']
                     else [])
           in mk_result s2 (f0 @ f1) (r1 @ r2 @ r3)
                [(''total'', PInt total_images), (''with_alt'', PInt with_alt),
                 (''missing_alt'', PInt missing_alt), (''empty_alt'', PInt empty_alt),
                 (''lazy_loaded'', PInt lazy_loaded)])"

subsection \<open>The fetched response and the libraries\<close>

record response =
  status_code :: int
  headers :: "(string \<times> string) list"
  content :: string
  body_text :: string

record ParseResult =
  scheme :: string
  netloc :: string

text \<open>
  What the code takes from outside itself: two readings of \<open>time.time()\<close>, the outcome of
  \<open>session.get\<close>, the HTML parser, \<open>urllib.parse.urlparse\<close> (which raises \<open>ValueError\<close>
  on some strings) and \<open>json.loads\<close>.
\<close>

record world =
  time_start :: double
  time_end :: double
  session_get :: "string \<Rightarrow> error + response"
  BeautifulSoup :: "string \<Rightarrow> document"
  urlparse :: "string \<Rightarrow> error + ParseResult"
  json_loads :: "string \<Rightarrow> error + pyval"

subsection \<open>Mobile\<close>

text \<open>
  The regular expression \<open>width\s*:\s*\d{4,}px\<close> with \<open>re.IGNORECASE\<close>:
  \<open>fixed_width_here\<close> matches it at the start of a string, \<open>fixed_width_search\<close> is
  \<open>pattern.search\<close>.
\<close>

definition fixed_width_here :: "string \<Rightarrow> bool" where
  "fixed_width_here s =
     (lower (take 5 s) = ''width'' \<and>
      (let s1 = dropWhile is_space (drop 5 s) in
       s1 \<noteq> [] \<and> hd s1 = CHR '':'' \<and>
       (let s2 = dropWhile is_space (tl s1);
            s3 = dropWhile is_digit s2
        in length (takeWhile is_digit s2) \<ge> 4 \<and> lower (take 2 s3) = ''px'')))"

fun fixed_width_search :: "string \<Rightarrow> bool" where
  "fixed_width_search [] = False"
| "fixed_width_search (c # cs) = (fixed_width_here (c # cs) \<or> fixed_width_search cs)"

definition audit_mobile :: "document \<Rightarrow> response \<Rightarrow> AuditResult" where
  "audit_mobile soup resp =
     (let viewport = find_meta soup ''name'' ''viewport'';
          (s1, f1, r1) =
            (case viewport of
               None \<Rightarrow>
                 (max 0 (100 - 40), [''No viewport meta tag found''],
                  [''Add: <meta name='' @ quote @ ''viewport'' @ quote @ '' content='' @ quote
                   @ ''width=device-width, initial-scale=1'' @ quote @ ''>''])
             | Some v \<Rightarrow>
                 let c = (case get v ''content'' of None \<Rightarrow> [] | Some c \<Rightarrow> c) in
                 if \<not> contains ''width=device-width'' c then
                   (max 0 (100 - 20),
                    [''Viewport found: '' @ c,
                     ''Viewport missing '' @ quote @ ''width=device-width'' @ quote],
                    [''Add width=device-width to viewport content''])
                 else (100, [''Viewport found: '' @ c], []));
          media_queries = length (filter (contains ''@media'') (text_nodes soup));
          f2 = (if media_queries > 0
                then [''Found '' @ str_nat media_queries @ '' media query references'']
                else []);
          (s3, f3, r3) =
            (if fixed_width_search (body_text resp) then
               (max 0 (s1 - 15),
                [''Fixed widths >1000px detected - may cause horizontal scrolling on mobile''],
                [''Use relative units (%, vw, rem) instead of large fixed pixel widths''])
             else (s1, [], []))
      in mk_result s3 (f1 @ f2 @ f3) (r1 @ r3)
           [(''viewport'',
             (case viewport of
                None \<Rightarrow> PNone
              | Some v \<Rightarrow> (case get v ''content'' of None \<Rightarrow> PNone | Some c \<Rightarrow> PStr c)))])"

subsection \<open>SSL and security headers\<close>

definition security_headers :: "(string \<times> string) list" where
  "security_headers =
     [(''Strict-Transport-Security'', ''HSTS - forces HTTPS connections''),
      (''Content-Security-Policy'', ''CSP - prevents XSS attacks''),
      (''X-Frame-Options'', ''Prevents clickjacking''),
      (''X-Content-Type-Options'', ''Prevents MIME sniffing''),
      (''Referrer-Policy'', ''Controls referrer information leakage'')]"

text \<open>\<open>header in response.headers\<close>: the keys of that dictionary ignore case.\<close>

definition header_in :: "string \<Rightarrow> (string \<times> string) list \<Rightarrow> bool" where
  "header_in header hs = list_ex (\<lambda>(k, v). lower k = lower header) hs"

definition audit_ssl_security :: "world \<Rightarrow> string \<Rightarrow> response \<Rightarrow> error + AuditResult" where
  "audit_ssl_security w u resp =
     (case urlparse w u of
        Inl e \<Rightarrow> Inl e
      | Inr parsed \<Rightarrow>
          let (s1, f1, r1) =
                (if scheme parsed \<noteq> ''https'' then
                   (max 0 (100 - 50), [''Site is not using HTTPS''],
                    [''Enable HTTPS - it's free with Let's Encrypt and essential for security''])
                 else (100, [''HTTPS is enabled '' @ check_mark], []));
              found_headers = filter (\<lambda>(header, description). header_in header (headers resp))
                                security_headers;
              missing_headers = filter (\<lambda>(header, description). \<not> header_in header (headers resp))
                                  security_headers;
              f2 = [''Security headers found: '' @ str_nat (length found_headers) @ ''/''
                    @ str_nat (length security_headers)];
              (s2, r2) =
                (if missing_headers \<noteq> [] then
                   (max 0 (s1 - min 30 (int (length missing_headers) * 6)),
                    map (\<lambda>(header, desc). ''Add '' @ header @ '' header: '' @ desc)
                      (take 3 missing_headers))
                 else (s1, []))
          in Inr (mk_result s2 (f1 @ f2) (r1 @ r2)
                [(''https'', PBool (scheme parsed = ''https'')),
                 (''found_headers'', PList (map (PStr \<circ> fst) found_headers)),
                 (''missing_headers'', PList (map (PStr \<circ> fst) missing_headers))]))"

subsection \<open>Performance\<close>

definition size_penalty :: "double \<Rightarrow> int \<times> string list \<times> string list" where
  "size_penalty size_kb =
     (if float_gt_int size_kb 2000 then
        (max 0 (100 - 30), [''Page is very large (>2MB)''],
         [''Optimize images and minify CSS/JS to reduce page size''])
      else if float_gt_int size_kb 1000 then
        (max 0 (100 - 15), [''Page is quite large (>1MB)''],
         [''Consider compressing images and lazy loading''])
      else if float_gt_int size_kb 500 then
        (max 0 (100 - 5), [''Page is moderately large''], [])
      else (100, [], []))"

definition audit_performance :: "world \<Rightarrow> response \<Rightarrow> int \<Rightarrow> string \<Rightarrow> AuditResult" where
  "audit_performance w resp content_length html_content =
     (let size_kb = of_ratio content_length 1024;
          f0 = [''Page size: '' @ fmt_1f size_kb @ '' KB''];
          (s1, f1, r1) = size_penalty size_kb;
          soup = BeautifulSoup w html_content;
          css_files = int (length (stylesheets soup));
          js_files = int (length (filter (\<lambda>e. name e = ''script'' \<and> get e ''src'' \<noteq> None)
                                    (tags soup)));
          imgs = int (length (find_all soup ''img''));
          f2 = [''External resources: '' @ str_int css_files @ '' CSS, '' @ str_int js_files
                @ '' JS, '' @ str_int imgs @ '' images''];
          total_external = css_files + js_files;
          (s3, f3, r3) =
            (if total_external > 20 then
               (max 0 (s1 - 15),
                [''Excessive external resources ('' @ str_int total_external @ '')''],
                [''Combine and minify CSS/JS files to reduce HTTP requests''])
             else if total_external > 10 then
               (max 0 (s1 - 5), [''Many external resources''],
                [''Consider combining some CSS/JS files''])
             else (s1, [], []));
          blocking_css = length (filter (\<lambda>link. get link ''media'' \<noteq> Some ''print'')
                                   (stylesheets soup));
          r4 = (if blocking_css > 3
                then [''Consider loading non-critical CSS asynchronously''] else []);
          img_srcs = map (\<lambda>img. case get img ''src'' of None \<Rightarrow> [] | Some x \<Rightarrow> x)
                       (find_all soup ''img'');
          modern_formats = length (filter (\<lambda>src. list_ex (\<lambda>ext. contains ext (lower src))
                                                    [''.webp'', ''.avif'']) img_srcs);
          r5 = (if imgs > 0 \<and> modern_formats = 0
                then [''Consider using WebP format for better compression''] else [])
      in mk_result s3 (f0 @ f1 @ f2 @ f3) (r1 @ r3 @ r4 @ r5)
           [(''size_kb'', PFloat size_kb), (''css_files'', PInt css_files),
            (''js_files'', PInt js_files), (''image_count'', PInt imgs)])"

subsection \<open>Links\<close>

definition is_absolute :: "string \<Rightarrow> bool" where
  "is_absolute href = (startswith href ''http://'' \<or> startswith href ''https://'')"

definition href_of :: "element \<Rightarrow> string" where
  "href_of link = (case get link ''href'' of None \<Rightarrow> [] | Some h \<Rightarrow> h)"

text \<open>\<open>link.get("rel") and w in link.get("rel", [])\<close>.\<close>

definition rel_has :: "element \<Rightarrow> string \<Rightarrow> bool" where
  "rel_has link w = (case rel link of None \<Rightarrow> False | Some toks \<Rightarrow> toks \<noteq> [] \<and> w \<in> set toks)"

text \<open>
  The loop over the links; the state is \<open>(internal, external, nofollow)\<close>.  \<open>urlparse\<close> is
  called on every absolute href, and its \<open>ValueError\<close> leaves the loop.
\<close>

fun classify_links :: "world \<Rightarrow> string \<Rightarrow> element list \<Rightarrow> int \<times> int \<times> int
                         \<Rightarrow> error + (int \<times> int \<times> int)" where
  "classify_links w base_domain [] acc = Inr acc"
| "classify_links w base_domain (link # rest) (internal, external, nofollow) =
     (let href = href_of link;
          nofollow' = (if rel_has link ''nofollow'' then nofollow + 1 else nofollow)
      in if is_absolute href then
           (case urlparse w href of
              Inl e \<Rightarrow> Inl e
            | Inr parsed_link \<Rightarrow>
                if netloc parsed_link = base_domain
                then classify_links w base_domain rest (internal + 1, external, nofollow')
                else classify_links w base_domain rest (internal, external + 1, nofollow'))
         else if \<not> (startswith href ''#'' \<or> startswith href ''javascript:''
                     \<or> startswith href ''mailto:'' \<or> startswith href ''tel:'')
         then classify_links w base_domain rest (internal + 1, external, nofollow')
         else classify_links w base_domain rest (internal, external, nofollow'))"

text \<open>The generator that counts the external links without the \<open>noopener\<close> token.\<close>

fun count_external_no_rel :: "world \<Rightarrow> string \<Rightarrow> element list \<Rightarrow> error + int" where
  "count_external_no_rel w base_domain [] = Inr 0"
| "count_external_no_rel w base_domain (link # rest) =
     (if is_absolute (href_of link) then
        (case urlparse w (href_of link) of
           Inl e \<Rightarrow> Inl e
         | Inr parsed_link \<Rightarrow>
             (case count_external_no_rel w base_domain rest of
                Inl e \<Rightarrow> Inl e
              | Inr n \<Rightarrow>
                  Inr (if netloc parsed_link \<noteq> base_domain \<and> \<not> rel_has link ''noopener''
                       then n + 1 else n)))
      else count_external_no_rel w base_domain rest)"

definition audit_links :: "world \<Rightarrow> document \<Rightarrow> string \<Rightarrow> error + AuditResult" where
  "audit_links w soup base_url =
     (let lnks = filter (\<lambda>e. name e = ''a'' \<and> get e ''href'' \<noteq> None) (tags soup);
          total_links = int (length lnks);
          f0 = [''Found '' @ str_int total_links @ '' link(s)'']
      in if total_links = 0 then
           Inr (mk_result 30 (f0 @ [''No links found on page''])
                  [''Add navigation links to help users explore your site''] [])
         else
           (case urlparse w base_url of
              Inl e \<Rightarrow> Inl e
            | Inr parsed_base \<Rightarrow>
                (case classify_links w (netloc parsed_base) lnks (0, 0, 0) of
                   Inl e \<Rightarrow> Inl e
                 | Inr (internal, external, nofollow) \<Rightarrow>
                     let f1 = [''Internal links: '' @ str_int internal,
                               ''External links: '' @ str_int external];
                         (s2, f2, r2) =
                           (if total_links < 3 then
                              (max 0 (100 - 30), [''Very few links on page''],
                               [''Add more navigation links to improve site structure''])
                            else (100, [], []));
                         raw = [(''total'', PInt total_links), (''internal'', PInt internal),
                                (''external'', PInt external), (''nofollow'', PInt nofollow)]
                     in if external > 0 then
                          (case count_external_no_rel w (netloc parsed_base) lnks of
                             Inl e \<Rightarrow> Inl e
                           | Inr external_no_rel \<Rightarrow>
                               if external_no_rel > 0 then
                                 Inr (mk_result (max 0 (s2 - 10))
                                   (f0 @ f1 @ f2 @
                                    [str_int external_no_rel @ '' external links missing rel=''
                                     @ quote @ ''noopener noreferrer'' @ quote])
                                   (r2 @ [''Add rel='' @ quote @ ''noopener noreferrer'' @ quote
                                          @ '' to external links for security''])
                                   raw)
                               else Inr (mk_result s2 (f0 @ f1 @ f2) r2 raw))
                        else Inr (mk_result s2 (f0 @ f1 @ f2) r2 raw))))"

subsection \<open>Open Graph\<close>

definition og_tags :: "(string \<times> string) list" where
  "og_tags =
     [(''og:title'', ''Title for social sharing''),
      (''og:description'', ''Description for social sharing''),
      (''og:image'', ''Image displayed when shared''),
      (''og:url'', ''Canonical URL''),
      (''og:type'', ''Content type (website, article, etc.)'')]"

text \<open>\<open>tag and tag.get("content")\<close>: the content of the first such meta tag, if not empty.\<close>

definition og_content :: "document \<Rightarrow> string \<Rightarrow> string option" where
  "og_content soup tag_name =
     (case find_meta soup ''property'' tag_name of
        None \<Rightarrow> None
      | Some tag \<Rightarrow> (case get tag ''content'' of
                       None \<Rightarrow> None
                     | Some c \<Rightarrow> if c = [] then None else Some c))"

definition audit_open_graph :: "document \<Rightarrow> AuditResult" where
  "audit_open_graph soup =
     (let found_tags = concat (map (\<lambda>(tag_name, description).
                          case og_content soup tag_name of
                            None \<Rightarrow> [] | Some c \<Rightarrow> [(tag_name, PStr c)]) og_tags);
          missing_tags = filter (\<lambda>(tag_name, description). og_content soup tag_name = None)
                           og_tags;
          f0 = [''Open Graph tags found: '' @ str_nat (length found_tags) @ ''/''
                @ str_nat (length og_tags)];
          s0 = coverage_score (int (length found_tags)) (int (length og_tags));
          r1 = map (\<lambda>(tag_name, desc). ''Add '' @ tag_name @ '': '' @ desc) (take 3 missing_tags);
          twitter_card = find_meta soup ''name'' ''twitter:card'';
          f2 = (if twitter_card \<noteq> None then [''Twitter Card tags also present '' @ check_mark]
                else []);
          r2 = (if twitter_card \<noteq> None then []
                else [''Consider adding Twitter Card meta tags for better X/Twitter sharing''])
      in mk_result s0 (f0 @ f2) (r1 @ r2)
           [(''found_tags'', PDict found_tags),
            (''missing_tags'', PList (map (PStr \<circ> fst) missing_tags))])"

subsection \<open>Schema.org structured data\<close>

text \<open>\<open>d.get(key, default)\<close> on a dictionary.\<close>

definition dict_get :: "(string \<times> pyval) list \<Rightarrow> string \<Rightarrow> pyval \<Rightarrow> pyval" where
  "dict_get kvs k dflt = (case map_of kvs k of None \<Rightarrow> dflt | Some v \<Rightarrow> v)"

text \<open>The \<open>@type\<close> values that one decoded block adds to \<open>schema_types_found\<close>.\<close>

fun item_types :: "pyval \<Rightarrow> pyval list" where
  "item_types (PDict kvs) = [dict_get kvs ''@type'' (PStr ''Unknown'')]"
| "item_types v = []"

fun block_types :: "pyval \<Rightarrow> pyval list" where
  "block_types (PDict kvs) = [dict_get kvs ''@type'' (PStr ''Unknown'')]"
| "block_types (PList items) = concat (map item_types items)"
| "block_types v = []"

text \<open>\<open>json.loads(script.string) if script.string else {}\<close>.\<close>

definition load_block :: "world \<Rightarrow> element \<Rightarrow> error + pyval" where
  "load_block w script =
     (case el_string script of
        None \<Rightarrow> Inr (PDict [])
      | Some s \<Rightarrow> if s = [] then Inr (PDict []) else json_loads w s)"

text \<open>
  The loop over the JSON-LD scripts.  The \<open>except\<close> clause catches \<open>JSONDecodeError\<close> and
  \<open>AttributeError\<close>, and the block then adds nothing; any other exception leaves the loop.
\<close>

fun schema_types :: "world \<Rightarrow> element list \<Rightarrow> error + pyval list" where
  "schema_types w [] = Inr []"
| "schema_types w (script # rest) =
     (case load_block w script of
        Inl e \<Rightarrow>
          if e = JSONDecodeError \<or> e = AttributeError then schema_types w rest else Inl e
      | Inr data \<Rightarrow>
          (case schema_types w rest of
             Inl e \<Rightarrow> Inl e
           | Inr found \<Rightarrow> Inr (block_types data @ found)))"

fun str_of :: "pyval \<Rightarrow> string option" where
  "str_of (PStr s) = Some s"
| "str_of v = None"

text \<open>\<open>', '.join(xs)\<close> on a list of values: \<open>TypeError\<close> unless every item is a \<open>str\<close>.\<close>

definition join_values :: "pyval list \<Rightarrow> error + string" where
  "join_values xs =
     (if list_all (\<lambda>v. str_of v \<noteq> None) xs
      then Inr (join '', '' (map (\<lambda>v. case str_of v of None \<Rightarrow> [] | Some s \<Rightarrow> s) xs))
      else Inl TypeError)"

definition audit_schema :: "world \<Rightarrow> document \<Rightarrow> error + AuditResult" where
  "audit_schema w soup =
     (let jsonld_scripts = filter (\<lambda>e. name e = ''script''
                                       \<and> get e ''type'' = Some ''application/ld+json'') (tags soup);
          f0 = [''Found '' @ str_nat (length jsonld_scripts) @ '' JSON-LD script(s)'']
      in if length jsonld_scripts = 0 then
           Inr (mk_result 0 (f0 @ [''No structured data found''])
                  [''Add JSON-LD structured data for better search visibility'',
                   ''Consider Organization, WebSite, or Article schema types''] [])
         else
           let s0 = min 100 (40 + int (length jsonld_scripts) * 20) in
           (case schema_types w jsonld_scripts of
              Inl e \<Rightarrow> Inl e
            | Inr schema_types_found \<Rightarrow>
                (case (if schema_types_found \<noteq> []
                       then join_values (take 5 schema_types_found) else Inr []) of
                   Inl e \<Rightarrow> Inl e
                 | Inr joined \<Rightarrow>
                     let f1 = (if schema_types_found \<noteq> []
                               then [''Schema types found: '' @ joined] else []);
                         microdata = filter (\<lambda>e. get e ''itemscope'' \<noteq> None) (tags soup);
                         f2 = (if microdata \<noteq> []
                               then [''Also found '' @ str_nat (length microdata)
                                     @ '' microdata element(s)'']
                               else []);
                         r1 = (if length jsonld_scripts < 2
                               then [''Consider adding more structured data types (BreadcrumbList, Article, etc.)'']
                               else [])
                     in Inr (mk_result s0 (f0 @ f1 @ f2) r1
                          [(''jsonld_count'', PInt (int (length jsonld_scripts))),
                           (''schema_types'', PList schema_types_found),
                           (''microdata_count'', PInt (int (length microdata)))]))))"

subsection \<open>The orchestrator\<close>

text \<open>
  \<open>WebsiteAuditor.audit\<close>.  \<open>raise_for_status\<close> raises for the status codes 400 to 599.
  The analyzers are the arguments of the \<open>WebsiteAudit\<close> constructor, evaluated in the
  order of the categories; three of them can raise.
\<close>

definition audit :: "world \<Rightarrow> string \<Rightarrow> error + WebsiteAudit" where
  "audit w u =
     (case session_get w u of
        Inl e \<Rightarrow> Inl e
      | Inr resp \<Rightarrow>
          if 400 \<le> status_code resp \<and> status_code resp < 600 then Inl HTTPError
          else
            let soup = BeautifulSoup w (content resp);
                html_content = body_text resp;
                duration = trunc (fmul (fsub (time_end w) (time_start w)) (float_of_int 1000));
                content_length = int (length (content resp))
            in (case audit_ssl_security w u resp of
                  Inl e \<Rightarrow> Inl e
                | Inr ssl_result \<Rightarrow>
                    (case audit_links w soup u of
                       Inl e \<Rightarrow> Inl e
                     | Inr links_result \<Rightarrow>
                         (case audit_schema w soup of
                            Inl e \<Rightarrow> Inl e
                          | Inr schema_result \<Rightarrow>
                              Inr \<lparr>url = u, timestamp = time_start w, duration_ms = duration,
                                   title = audit_title soup,
                                   meta_description = audit_meta_description soup,
                                   headings = audit_headings soup,
                                   images = audit_images soup,
                                   mobile = audit_mobile soup resp,
                                   ssl_security = ssl_result,
                                   performance = audit_performance w resp content_length html_content,
                                   links = links_result,
                                   open_graph = audit_open_graph soup,
                                   schema = schema_result\<rparr>))))"

text \<open>The ten category results of an audit, in the order of the categories.\<close>

definition results :: "WebsiteAudit \<Rightarrow> AuditResult list" where
  "results a = [title a, meta_description a, headings a, images a, mobile a,
                ssl_security a, performance a, links a, open_graph a, schema a]"

section \<open>reporter.py: JsonReporter\<close>

text \<open>
  The reporter holds its two flags; \<open>get_roast\<close> stands for \<open>Roaster.get_roast\<close>, whose
  text is a random choice.  \<open>generate\<close> returns \<open>json.dumps(data, indent=2)\<close>; the model
  keeps the tree \<open>data\<close>, which is what \<open>json.loads\<close> gives back from that text.
\<close>

record JsonReporter =
  no_roast :: bool
  verbose :: bool
  get_roast :: "int \<Rightarrow> string \<Rightarrow> string"

definition category_to_dict :: "JsonReporter \<Rightarrow> string \<Rightarrow> AuditResult \<Rightarrow> pyval" where
  "category_to_dict self nm result =
     (let roast = (if \<not> no_roast self then get_roast self (score result) nm else [])
      in PDict ([(''name'', PStr nm),
                 (''score'', PInt (score result)),
                 (''max_score'', PInt (max_score result)),
                 (''findings'', PList (map PStr (findings result))),
                 (''recommendations'',
                    PList (if verbose self then map PStr (recommendations result) else [])),
                 (''raw_data'', PDict (raw_data result))]
                @ (if roast \<noteq> [] then [(''roast'', PStr roast)] else [])))"

definition generate :: "JsonReporter \<Rightarrow> WebsiteAudit \<Rightarrow> pyval" where
  "generate self a =
     PDict [(''url'', PStr (url a)),
            (''timestamp'', PFloat (timestamp a)),
            (''duration_ms'', PInt (duration_ms a)),
            (''overall_score'', PInt (get_overall_score a)),
            (''grade'', PStr (get_grade a)),
            (''categories'', PDict
               [(''title'', category_to_dict self ''Title Tag'' (title a)),
                (''meta_description'', category_to_dict self ''Meta Description'' (meta_description a)),
                (''headings'', category_to_dict self ''Headings'' (headings a)),
                (''images'', category_to_dict self ''Images'' (images a)),
                (''mobile'', category_to_dict self ''Mobile'' (mobile a)),
                (''ssl_security'', category_to_dict self ''SSL/Security'' (ssl_security a)),
                (''performance'', category_to_dict self ''Performance'' (performance a)),
                (''links'', category_to_dict self ''Links'' (links a)),
                (''open_graph'', category_to_dict self ''Open Graph'' (open_graph a)),
                (''schema'', category_to_dict self ''Schema/Structured Data'' (schema a))])]"

text \<open>
  Reading a report back: the value under a key of a JSON object, a JSON list of strings,
  and the \<open>AuditResult\<close> that a category object describes.
\<close>

fun lookup :: "pyval \<Rightarrow> string \<Rightarrow> pyval option" where
  "lookup (PDict kvs) k = map_of kvs k"
| "lookup v k = None"

fun strs_of :: "pyval list \<Rightarrow> string list option" where
  "strs_of [] = Some []"
| "strs_of (PStr s # vs) = (case strs_of vs of None \<Rightarrow> None | Some ss \<Rightarrow> Some (s # ss))"
| "strs_of (v # vs) = None"

definition read_category :: "pyval \<Rightarrow> AuditResult option" where
  "read_category d =
     (case (lookup d ''score'', lookup d ''max_score'', lookup d ''findings'',
            lookup d ''recommendations'', lookup d ''raw_data'') of
        (Some (PInt s), Some (PInt m), Some (PList f), Some (PList r), Some (PDict raw)) \<Rightarrow>
          (case (strs_of f, strs_of r) of
             (Some fs, Some rs) \<Rightarrow>
               Some \<lparr>score = s, max_score = m, findings = fs, recommendations = rs, raw_data = raw\<rparr>
           | _ \<Rightarrow> None)
      | _ \<Rightarrow> None)"

definition category_keys :: "string list" where
  "category_keys = [''title'', ''meta_description'', ''headings'', ''images'', ''mobile'',
                    ''ssl_security'', ''performance'', ''links'', ''open_graph'', ''schema'']"

definition read_results :: "pyval \<Rightarrow> AuditResult option list" where
  "read_results report =
     map (\<lambda>k. case lookup report ''categories'' of
                 None \<Rightarrow> None
               | Some cats \<Rightarrow> (case lookup cats k of None \<Rightarrow> None | Some d \<Rightarrow> read_category d))
         category_keys"

section \<open>The specification's notions\<close>

text \<open>The grade table of the specification, read from the top: the first threshold reached.\<close>

definition grade_table :: "(int \<times> string) list" where
  "grade_table =
     [(97, ''A+''), (93, ''A''), (90, ''A-''), (87, ''B+''), (83, ''B''), (80, ''B-''),
      (77, ''C+''), (73, ''C''), (70, ''C-''), (67, ''D+''), (63, ''D''), (60, ''D-'')]"

fun spec_grade :: "(int \<times> string) list \<Rightarrow> int \<Rightarrow> string" where
  "spec_grade [] s = ''F''"
| "spec_grade ((t, g) # rest) s = (if s \<ge> t then g else spec_grade rest s)"

text \<open>
  The three classes of images: the \<open>alt\<close> attribute is absent, present and blank, or
  present with text.
\<close>

definition alt_missing :: "element \<Rightarrow> bool" where
  "alt_missing img = (get img ''alt'' = None)"

definition alt_blank :: "element \<Rightarrow> bool" where
  "alt_blank img = (case get img ''alt'' of None \<Rightarrow> False | Some a \<Rightarrow> strip a = [])"

definition alt_text :: "element \<Rightarrow> bool" where
  "alt_text img = (case get img ''alt'' of None \<Rightarrow> False | Some a \<Rightarrow> strip a \<noteq> [])"

text \<open>The invariant of a category result.\<close>

definition score_in_range :: "AuditResult \<Rightarrow> bool" where
  "score_in_range r = (0 \<le> score r \<and> score r \<le> 100)"

text \<open>The score of the images analyzer, from the counts of the three classes.\<close>

definition images_score :: "element list \<Rightarrow> int" where
  "images_score imgs =
     (let total = int (length imgs);
          m = int (length (filter alt_missing imgs));
          e = int (length (filter alt_blank imgs));
          s0 = coverage_score (total - m - e) total;
          s1 = (if m > 0 then max 0 (s0 - 10) else s0);
          s2 = (if e > 0 then max 0 (s1 - 5) else s1)
      in if total = 0 then 70 else s2)"

section \<open>Example inputs\<close>

text \<open>
  A page with no markup at all, fetched with status 200 and no headers, in a world whose
  URL parser accepts every string.
\<close>

definition empty_document :: document where
  "empty_document = \<lparr>tags = [], text_nodes = []\<rparr>"

definition plain_response :: response where
  "plain_response = \<lparr>status_code = 200, headers = [], content = [], body_text = []\<rparr>"

definition example_world :: world where
  "example_world =
     \<lparr>time_start = Double 0 0, time_end = Double 0 0,
      session_get = (\<lambda>u. Inr plain_response),
      BeautifulSoup = (\<lambda>b. empty_document),
      urlparse = (\<lambda>u. Inr \<lparr>scheme = ''https'', netloc = ''example.com''\<rparr>),
      json_loads = (\<lambda>s. Inl JSONDecodeError)\<rparr>"

section \<open>Properties of the float operations\<close>

lemma den_pos: "0 < den d"
  by (simp add: den_def)

lemma val_num_den: "val d = of_int (num d) / of_int (den d)"
  by (cases d) (simp add: val_def num_def den_def power_int_def power_inverse field_simps)

lemma rne_div_int: 
  assumes "0 < b" shows "2 * \<bar>rne_div a b * b - a\<bar> \<le> b"
proof -
  define q where "q = a div b"
  define r where "r = a mod b"
  have a: "a = q * b + r" by (simp add: q_def r_def)
  have r: "0 \<le> r" "r < b" using assms by (simp_all add: r_def)
  show ?thesis
    using r unfolding rne_div_def Let_def q_def[symmetric] r_def[symmetric] a
    by (auto simp: algebra_simps)
qed

lemma rne_div_even:
  assumes "0 < b" "2 * \<bar>rne_div a b * b - a\<bar> = b" shows "even (rne_div a b)"
proof -
  define q where "q = a div b"
  define r where "r = a mod b"
  have a: "a = q * b + r" by (simp add: q_def r_def)
  have r: "0 \<le> r" "r < b" using assms by (simp_all add: r_def)
  show ?thesis
    using r assms(2) unfolding rne_div_def Let_def q_def[symmetric] r_def[symmetric] a
    by (auto simp: algebra_simps split: if_splits)
qed

lemma rne_div_unique:
  assumes "0 < b" "2 * \<bar>k * b - a\<bar> < b" shows "rne_div a b = k"
proof -
  have "2 * \<bar>rne_div a b * b - a\<bar> \<le> b" using assms(1) by (rule rne_div_int)
  moreover have "\<And>x y::int. 2 * \<bar>x\<bar> \<le> b \<Longrightarrow> 2 * \<bar>y\<bar> < b \<Longrightarrow> \<bar>x - y\<bar> < b" by arith
  ultimately have "\<bar>(rne_div a b * b - a) - (k * b - a)\<bar> < b" using assms(2) by blast
  then have "\<bar>(rne_div a b - k) * b\<bar> < b" by (simp add: algebra_simps)
  then have "\<bar>rne_div a b - k\<bar> * b < 1 * b" using assms(1) by (simp add: abs_mult)
  then have "\<bar>rne_div a b - k\<bar> < 1" using assms(1) by (simp only: mult_less_cancel_right)
  then show ?thesis by simp
qed

lemma rne_div_exact: "0 < b \<Longrightarrow> b dvd a \<Longrightarrow> rne_div a b = a div b"
  by (auto simp: rne_div_def Let_def)

lemma rne_div_nonneg: "0 < b \<Longrightarrow> 0 \<le> a \<Longrightarrow> 0 \<le> rne_div a b"
  by (auto simp: rne_div_def Let_def pos_imp_zdiv_nonneg_iff)

lemma scale_le_iff: "scale_le q d a \<longleftrightarrow> of_int q * 2 powi d \<le> (of_int a :: rat)"
proof (cases "0 \<le> d")
  case True
  have "(q * 2 ^ nat d \<le> a) \<longleftrightarrow> ((of_int (q * 2 ^ nat d) :: rat) \<le> of_int a)" by (simp only: of_int_le_iff)
  then show ?thesis using True by (simp add: scale_le_def power_int_def)
next
  case False
  have "(q \<le> a * 2 ^ nat (- d)) \<longleftrightarrow> ((of_int q :: rat) \<le> of_int (a * 2 ^ nat (- d)))" by (simp only: of_int_le_iff)
  then show ?thesis using False by (simp add: scale_le_def power_int_def power_inverse field_simps)
qed

lemma floorlog_ge1: "0 < n \<Longrightarrow> 1 \<le> floorlog 2 n"
  by (simp add: floorlog_def)

lemma ratio_expo_lower:
  assumes "0 < a" "0 < q"
  shows "of_int q * 2 powi (ratio_expo a q + 52) \<le> (of_int a :: rat)"
proof -
  define la where "la = floorlog 2 (nat a)"
  define lq where "lq = floorlog 2 (nat q)"
  define d where "d = int la - int lq"
  have la1: "1 \<le> la" using assms(1) floorlog_ge1[of "nat a"] by (simp add: la_def)
  have blo: "2 ^ (la - 1) \<le> nat a" 
    using floorlog_bounds[of "nat a" 2] assms(1) by (simp add: la_def)
  have bhi: "nat q < 2 ^ lq"
    using floorlog_bounds[of "nat q" 2] assms(2) by (simp add: lq_def)
  show ?thesis
  proof (cases "scale_le q d a")
    case True
    then have "ratio_expo a q = d - 52"
      by (simp add: ratio_expo_def Let_def d_def la_def lq_def)
    then show ?thesis using True by (simp add: scale_le_iff)
  next
    case False
    then have e: "ratio_expo a q = d - 1 - 52"
      by (simp add: ratio_expo_def Let_def d_def la_def lq_def)
    have "(of_int q :: rat) < 2 ^ lq"
    proof -
      have "(of_nat (nat q) :: rat) < of_nat (2 ^ lq)" using bhi by (simp only: of_nat_less_iff)
      then show ?thesis using assms(2) by simp
    qed
    then have "(of_int q :: rat) * 2 powi (d - 1) \<le> 2 ^ lq * 2 powi (d - 1)"
      by (simp add: mult_right_mono)
    also have "(2::rat) ^ lq * 2 powi (d - 1) = 2 powi (int lq + (d - 1))"
      by (simp add: power_int_add)
    also have "int lq + (d - 1) = int (la - 1)" using la1 by (simp add: d_def)
    also have "(2::rat) powi int (la - 1) = 2 ^ (la - 1)" by simp
    also have "(2::rat) ^ (la - 1) \<le> of_int a"
    proof -
      have "(of_nat (2 ^ (la - 1)) :: rat) \<le> of_nat (nat a)" using blo by (simp only: of_nat_le_iff)
      then show ?thesis using assms(1) by simp
    qed
    finally show ?thesis using e by simp
  qed
qed

lemma ratio_expo_le:
  assumes "0 < a" "0 < q" "of_int a < of_int q * (2::rat) powi K"
  shows "ratio_expo a q \<le> K - 53"
proof -
  have "of_int q * 2 powi (ratio_expo a q + 52) < of_int q * (2::rat) powi K"
    using ratio_expo_lower[OF assms(1,2)] assms(3) by linarith
  then have "(2::rat) powi (ratio_expo a q + 52) < 2 powi K"
    using assms(2) by (simp add: mult_less_cancel_left)
  have "ratio_expo a q + 52 < K"
  proof (rule ccontr)
    assume "\<not> ratio_expo a q + 52 < K"
    then have "K \<le> ratio_expo a q + 52" by simp
    then have "(2::rat) powi K \<le> 2 powi (ratio_expo a q + 52)"
      by (intro power_int_increasing) simp_all
    with \<open>(2::rat) powi (ratio_expo a q + 52) < 2 powi K\<close> show False by simp
  qed
  then show ?thesis by simp
qed

lemma ratio_mant_err:
  assumes "0 < q"
  shows "\<bar>of_int (ratio_mant a q e) * 2 powi e - (of_int a / of_int q :: rat)\<bar> \<le> 2 powi (e - 1)"
proof -
  define b :: rat where "b = of_int q * 2 powi e"
  have bpos: "0 < b" using assms by (simp add: b_def)
  have key: "2 * \<bar>of_int (ratio_mant a q e) * b - of_int a\<bar> \<le> b"
  proof (cases "0 \<le> e")
    case True
    have b': "b = of_int (q * 2 ^ nat e)" using True by (simp add: b_def power_int_def)
    have "2 * \<bar>rne_div a (q * 2 ^ nat e) * (q * 2 ^ nat e) - a\<bar> \<le> q * 2 ^ nat e"
      using assms by (intro rne_div_int) simp
    then have "(of_int (2 * \<bar>rne_div a (q * 2 ^ nat e) * (q * 2 ^ nat e) - a\<bar>) :: rat) \<le> of_int (q * 2 ^ nat e)"
      by (simp only: of_int_le_iff)
    then show ?thesis using True unfolding b' ratio_mant_def by simp
  next
    case False
    define s :: int where "s = 2 ^ nat (- e)"
    have spos: "0 < s" by (simp add: s_def)
    have p: "(2::rat) ^ nat (- e) = 2 powi (- e)" using False by (simp add: power_int_def)
    have bs: "b * of_int s = of_int q" unfolding b_def s_def by (simp add: p power_int_minus)
    have "2 * \<bar>rne_div (a * s) q * q - a * s\<bar> \<le> q"
      using assms by (rule rne_div_int)
    then have "(of_int (2 * \<bar>rne_div (a * s) q * q - a * s\<bar>) :: rat) \<le> of_int q"
      by (simp only: of_int_le_iff)
    then have "2 * \<bar>of_int (rne_div (a * s) q) * (b * of_int s) - of_int a * of_int s\<bar> \<le> b * of_int s"
      by (simp add: bs)
    then have "2 * \<bar>(of_int (rne_div (a * s) q) * b - of_int a) * of_int s\<bar> \<le> b * of_int s"
      by (simp add: algebra_simps)
    then have "(2 * \<bar>of_int (rne_div (a * s) q) * b - of_int a\<bar>) * of_int s \<le> b * of_int s"
      using spos by (simp add: abs_mult)
    then have "2 * \<bar>of_int (rne_div (a * s) q) * b - of_int a\<bar> \<le> b"
      using spos by (simp only: mult_le_cancel_right)
    then show ?thesis using False by (simp add: ratio_mant_def s_def)
  qed
  have "\<bar>of_int (ratio_mant a q e) * 2 powi e - (of_int a / of_int q :: rat)\<bar>
        = \<bar>of_int (ratio_mant a q e) * b - of_int a\<bar> / of_int q"
    using assms by (simp add: b_def abs_div_pos[symmetric] field_simps)
  also have "\<dots> \<le> (b / 2) / of_int q"
  proof -
    have "\<bar>of_int (ratio_mant a q e) * b - of_int a\<bar> \<le> b / 2" using key by (simp add: field_simps)
    then show ?thesis using assms by (intro divide_right_mono) simp_all
  qed
  also have "\<dots> = 2 powi (e - 1)" using assms by (simp add: b_def power_int_diff)
  finally show ?thesis .
qed

lemma val_of_ratio:
  assumes "p \<noteq> 0"
  shows "val (of_ratio p q)
         = of_int (sgn p) * (of_int (ratio_mant \<bar>p\<bar> q (ratio_expo \<bar>p\<bar> q)) * 2 powi (ratio_expo \<bar>p\<bar> q))"
proof -
  have "(2::rat) powi (ratio_expo \<bar>p\<bar> q + 1) = 2 powi (ratio_expo \<bar>p\<bar> q) * 2"
    by (simp add: power_int_add)
  then show ?thesis using assms
    by (simp add: of_ratio_def Let_def val_def)
qed

lemma val_zero: "val (of_ratio 0 q) = 0"
  by (simp add: of_ratio_def val_def)

lemma sgn_abs_rat: "(of_int p :: rat) = of_int (sgn p) * of_int \<bar>p\<bar>"
proof -
  have "p = sgn p * \<bar>p\<bar>" by (simp only: sgn_mult_abs)
  then have "(of_int p :: rat) = of_int (sgn p * \<bar>p\<bar>)" by (rule arg_cong)
  then show ?thesis by (simp only: of_int_mult)
qed

lemma of_ratio_diff:
  assumes "p \<noteq> 0"
  shows "\<bar>val (of_ratio p q) - of_int p / of_int q\<bar>
         = \<bar>of_int (ratio_mant \<bar>p\<bar> q (ratio_expo \<bar>p\<bar> q)) * 2 powi (ratio_expo \<bar>p\<bar> q)
            - (of_int \<bar>p\<bar> / of_int q :: rat)\<bar>"
proof -
  define X :: rat where "X = of_int (ratio_mant \<bar>p\<bar> q (ratio_expo \<bar>p\<bar> q)) * 2 powi (ratio_expo \<bar>p\<bar> q)"
  define Y :: rat where "Y = of_int \<bar>p\<bar> / of_int q"
  define s :: rat where "s = of_int (sgn p)"
  have v: "val (of_ratio p q) = s * X" using assms unfolding X_def s_def by (rule val_of_ratio)
  have "(of_int p :: rat) / of_int q = (s * of_int \<bar>p\<bar>) / of_int q"
    unfolding s_def by (simp only: sgn_abs_rat[symmetric])
  then have y: "(of_int p :: rat) / of_int q = s * Y" unfolding Y_def by simp
  have sg: "\<bar>s\<bar> = 1" using assms by (simp add: s_def sgn_if)
  have "val (of_ratio p q) - of_int p / of_int q = s * (X - Y)"
    unfolding v y by (simp only: right_diff_distrib)
  then have "\<bar>val (of_ratio p q) - of_int p / of_int q\<bar> = \<bar>s\<bar> * \<bar>X - Y\<bar>"
    by (simp only: abs_mult)
  then show ?thesis unfolding sg X_def Y_def by simp
qed

lemma of_ratio_err:
  assumes "0 < q" "\<bar>of_int p\<bar> < of_int q * (2::rat) powi K"
  shows "\<bar>val (of_ratio p q) - of_int p / of_int q\<bar> \<le> 2 powi (K - 54)"
proof (cases "p = 0")
  case True
  then show ?thesis by (simp add: val_zero)
next
  case False
  define a where "a = \<bar>p\<bar>"
  define e where "e = ratio_expo a q"
  have apos: "0 < a" using False by (simp add: a_def)
  have "of_int a < of_int q * (2::rat) powi K" using assms(2) by (simp add: a_def)
  then have e: "e \<le> K - 53" unfolding e_def using apos assms(1) by (intro ratio_expo_le)
  have "\<bar>val (of_ratio p q) - of_int p / of_int q\<bar>
        = \<bar>of_int (ratio_mant a q e) * 2 powi e - (of_int a / of_int q :: rat)\<bar>"
    unfolding a_def e_def using False by (rule of_ratio_diff)
  also have "\<dots> \<le> 2 powi (e - 1)" using assms(1) by (rule ratio_mant_err)
  also have "\<dots> \<le> 2 powi (K - 54)" using e by (intro power_int_increasing) simp_all
  finally show ?thesis .
qed

lemma ratio_mant_nonneg: "0 < q \<Longrightarrow> 0 \<le> a \<Longrightarrow> 0 \<le> ratio_mant a q e"
  by (simp add: ratio_mant_def rne_div_nonneg)

lemma of_ratio_nonneg:
  assumes "0 < q" "0 \<le> p" shows "0 \<le> val (of_ratio p q)"
proof (cases "p = 0")
  case True then show ?thesis by (simp add: val_zero)
next
  case False
  then have "0 < p" using assms(2) by simp
  then show ?thesis using assms(1) 
    by (simp add: val_of_ratio ratio_mant_nonneg)
qed

lemma of_ratio_exact:
  assumes "0 < q" "\<bar>of_int p\<bar> < of_int q * (2::rat) powi K" "K \<le> 53"
    and "q dvd \<bar>p\<bar> * 2 ^ nat (53 - K)"
  shows "val (of_ratio p q) = of_int p / of_int q"
proof (cases "p = 0")
  case True then show ?thesis by (simp add: val_zero)
next
  case False
  define a where "a = \<bar>p\<bar>"
  define e where "e = ratio_expo a q"
  have apos: "0 < a" using False by (simp add: a_def)
  have "of_int a < of_int q * (2::rat) powi K" using assms(2) by (simp add: a_def)
  then have e: "e \<le> K - 53" unfolding e_def using apos assms(1) by (intro ratio_expo_le)
  then have e0: "e \<le> 0" using assms(3) by simp
  define n where "n = nat (- e)"
  have "nat (53 - K) \<le> n" using e by (simp add: n_def)
  then have "(2::int) ^ nat (53 - K) dvd 2 ^ n" by (rule le_imp_power_dvd)
  then have "a * 2 ^ nat (53 - K) dvd a * 2 ^ n" by (rule mult_dvd_mono[OF dvd_refl])
  then have dv: "q dvd a * 2 ^ n" using assms(4) unfolding a_def by (rule dvd_trans[rotated])
  have m: "ratio_mant a q e = (a * 2 ^ n) div q"
  proof (cases "e = 0")
    case True
    then show ?thesis using dv assms(1) by (simp add: ratio_mant_def n_def rne_div_exact)
  next
    case False
    then have "e < 0" using e0 by simp
    then show ?thesis using dv assms(1) by (simp add: ratio_mant_def n_def rne_div_exact)
  qed
  have pw: "(2::rat) powi e = 1 / 2 ^ n" using e0 
    by (cases "e = 0") (simp_all add: n_def power_int_def power_inverse field_simps)
  have "(of_int ((a * 2 ^ n) div q) :: rat) = of_int (a * 2 ^ n) / of_int q"
    using dv by (rule of_int_div)
  then have "of_int (ratio_mant a q e) * (2::rat) powi e = of_int a / of_int q"
    by (simp add: m pw)
  then have "of_int (ratio_mant \<bar>p\<bar> q (ratio_expo \<bar>p\<bar> q)) * (2::rat) powi (ratio_expo \<bar>p\<bar> q)
             - of_int \<bar>p\<bar> / of_int q = 0"
    by (simp add: a_def e_def)
  then have "\<bar>val (of_ratio p q) - of_int p / of_int q\<bar> = 0"
    using of_ratio_diff[OF False, of q] by simp
  then show ?thesis by simp
qed

lemma trunc_floor:
  assumes "0 \<le> val x" shows "trunc x = \<lfloor>val x\<rfloor>"
proof -
  have d: "0 < den x" by (rule den_pos)
  have "0 \<le> (of_int (num x) :: rat) / of_int (den x)" using assms by (simp add: val_num_den)
  then have n: "0 \<le> num x" using d by (simp add: zero_le_divide_iff)
  have "trunc x = num x div den x" using n by (simp add: trunc_def sgn_if)
  then show ?thesis by (simp add: val_num_den floor_divide_of_int_eq)
qed

lemma of_ratio_err_val:
  assumes "0 < q" "\<bar>of_int p / of_int q\<bar> < (2::rat) powi K"
  shows "\<bar>val (of_ratio p q) - of_int p / of_int q\<bar> \<le> 2 powi (K - 54)"
proof -
  have "\<bar>of_int p :: rat\<bar> / of_int q < 2 powi K" using assms by simp
  then have "\<bar>of_int p :: rat\<bar> < of_int q * 2 powi K"
    using assms(1) by (simp add: pos_divide_less_eq mult.commute)
  with assms(1) show ?thesis by (rule of_ratio_err)
qed

lemma num_nonneg: "0 \<le> val x \<Longrightarrow> 0 \<le> num x"
  using den_pos[of x] by (simp add: val_num_den zero_le_divide_iff)

lemma val_fmul_ratio:
  "(of_int (num x * num y) :: rat) / of_int (den x * den y) = val x * val y"
  by (simp add: val_num_den)

lemma fmul_err:
  assumes "\<bar>val x * val y\<bar> < (2::rat) powi K"
  shows "\<bar>val (fmul x y) - val x * val y\<bar> \<le> 2 powi (K - 54)"
proof -
  have q: "0 < den x * den y" by (simp add: den_pos)
  have "\<bar>(of_int (num x * num y) :: rat) / of_int (den x * den y)\<bar> < 2 powi K"
    using assms by (simp only: val_fmul_ratio)
  with q have "\<bar>val (of_ratio (num x * num y) (den x * den y))
                - of_int (num x * num y) / of_int (den x * den y)\<bar> \<le> 2 powi (K - 54)"
    by (rule of_ratio_err_val)
  then show ?thesis by (simp only: val_fmul_ratio fmul_def)
qed

lemma fmul_nonneg: "0 \<le> val x \<Longrightarrow> 0 \<le> val y \<Longrightarrow> 0 \<le> val (fmul x y)"
  unfolding fmul_def by (intro of_ratio_nonneg) (simp_all add: den_pos num_nonneg)

lemma pow_m53: "(2::rat) powi (- 53) = 1 / 9007199254740992"
  by (simp add: power_int_minus divide_simps)

lemma pow_m47: "(2::rat) powi (- 47) = 1 / 140737488355328"
  by (simp add: power_int_minus divide_simps)

lemma val_float_100: "val (float_of_int 100) = 100"
proof -
  have "\<bar>of_int 100\<bar> < of_int 1 * (2::rat) powi 7" by simp
  moreover have "(1::int) dvd \<bar>100\<bar> * 2 ^ nat (53 - 7)" by simp
  ultimately have "val (of_ratio 100 1) = of_int 100 / of_int 1"
    by (intro of_ratio_exact[where K = 7]) simp_all
  then show ?thesis by (simp add: float_of_int_def)
qed

lemma coverage_product:
  assumes "0 \<le> w" "w \<le> t" "0 < t"
  defines "v \<equiv> val (fmul (of_ratio w t) (float_of_int 100))"
  shows "0 \<le> v" and "\<bar>v - 100 * of_int w / of_int t\<bar> \<le> 1 / 35184372088832"
proof -
  define r :: rat where "r = of_int w / of_int t"
  define x1 where "x1 = val (of_ratio w t)"
  have r01: "0 \<le> r" "r \<le> 1" using assms(1-3) by (simp_all add: r_def)
  then have "\<bar>of_int w / of_int t\<bar> < (2::rat) powi 1" by (simp add: r_def)
  with assms(3) have "\<bar>val (of_ratio w t) - of_int w / of_int t\<bar> \<le> 2 powi (1 - 54)"
    by (rule of_ratio_err_val)
  then have e1: "\<bar>x1 - r\<bar> \<le> 1 / 9007199254740992" by (simp add: x1_def r_def pow_m53)
  have x1n: "0 \<le> x1" unfolding x1_def using assms(3,1) by (rule of_ratio_nonneg)
  have x1u: "x1 \<le> 1 + 1 / 9007199254740992" using e1 r01 by linarith
  have "\<bar>x1 * 100\<bar> < (2::rat) powi 7" using x1n x1u by simp
  then have "\<bar>val (of_ratio w t) * val (float_of_int 100)\<bar> < (2::rat) powi 7"
    by (simp only: x1_def val_float_100)
  then have "\<bar>val (fmul (of_ratio w t) (float_of_int 100)) - val (of_ratio w t) * val (float_of_int 100)\<bar>
             \<le> 2 powi (7 - 54)" by (rule fmul_err)
  then have e2: "\<bar>v - x1 * 100\<bar> \<le> 1 / 140737488355328"
    by (simp add: v_def x1_def val_float_100 pow_m47)
  have "0 \<le> val (float_of_int 100)" by (simp add: val_float_100)
  with x1n show "0 \<le> v" unfolding v_def x1_def by (rule fmul_nonneg)
  have "\<bar>v - 100 * r\<bar> \<le> 1 / 35184372088832" using e1 e2 by linarith
  then show "\<bar>v - 100 * of_int w / of_int t\<bar> \<le> 1 / 35184372088832" by (simp add: r_def)
qed

lemma coverage_score_floor_eq:
  assumes "0 \<le> w" "w \<le> t" "0 < t"
  shows "coverage_score w t = \<lfloor>val (fmul (of_ratio w t) (float_of_int 100))\<rfloor>"
  unfolding coverage_score_def using coverage_product(1)[OF assms] by (rule trunc_floor)

lemma coverage_score_range:
  assumes "0 \<le> w" "w \<le> t" "0 < t"
  shows "0 \<le> coverage_score w t \<and> coverage_score w t \<le> 100"
proof -
  define v where "v = val (fmul (of_ratio w t) (float_of_int 100))"
  have vn: "0 \<le> v" and ve: "\<bar>v - 100 * of_int w / of_int t\<bar> \<le> 1 / 35184372088832"
    unfolding v_def using assms by (rule coverage_product)+
  have "(of_int w :: rat) / of_int t \<le> 1" using assms by simp
  then have "100 * (of_int w :: rat) / of_int t \<le> 100" by simp
  then have "v < 101" using ve by linarith
  then have "\<lfloor>v\<rfloor> < 101" by (simp add: floor_less_iff)
  moreover have "0 \<le> \<lfloor>v\<rfloor>" using vn by simp
  moreover have "coverage_score w t = \<lfloor>v\<rfloor>"
    unfolding v_def using assms by (rule coverage_score_floor_eq)
  ultimately show ?thesis by simp
qed
lemma coverage_score_floor:
  assumes "0 \<le> w" "w \<le> t" "0 < t" "t < 2 ^ 40"
  shows "100 * w div t - 1 \<le> coverage_score w t \<and> coverage_score w t \<le> 100 * w div t
         \<and> (\<not> t dvd 100 * w \<longrightarrow> coverage_score w t = 100 * w div t)"
proof -
  define v where "v = val (fmul (of_ratio w t) (float_of_int 100))"
  define N where "N = 100 * w div t"
  define m where "m = 100 * w mod t"
  define T :: rat where "T = of_int t"
  have ve: "\<bar>v - 100 * of_int w / of_int t\<bar> \<le> 1 / 35184372088832"
    unfolding v_def using assms(1-3) by (rule coverage_product)
  have cs: "coverage_score w t = \<lfloor>v\<rfloor>"
    unfolding v_def using assms(1-3) by (rule coverage_score_floor_eq)
  have Tpos: "0 < T" using assms(3) by (simp add: T_def)
  have "(of_int t :: rat) < of_int (2 ^ 40)" using assms(4) by (simp only: of_int_less_iff)
  then have Tlt: "T < 1099511627776" by (simp add: T_def)
  have m: "0 \<le> m" "m \<le> t - 1" using assms(3) by (simp_all add: m_def)
  have "100 * w = N * t + m" by (simp add: N_def m_def)
  then have "(of_int (100 * w) :: rat) = of_int (N * t + m)" by (rule arg_cong)
  then have R: "100 * (of_int w :: rat) / of_int t = of_int N + of_int m / T"
    using Tpos by (simp add: T_def field_simps)
  define M :: rat where "M = of_int m / T"
  define I :: rat where "I = 1 / T"
  have ve': "\<bar>v - (of_int N + M)\<bar> \<le> 1 / 35184372088832"
    using ve by (simp only: R M_def)
  have inv: "1 / 1099511627776 < I" using Tpos Tlt by (simp add: I_def field_simps)
  have m0: "0 \<le> M" using m(1) Tpos by (simp add: M_def)
  have "(of_int m :: rat) \<le> of_int (t - 1)" using m(2) by (simp only: of_int_le_iff)
  then have "(of_int m :: rat) \<le> T - 1" by (simp add: T_def)
  then have "(of_int m :: rat) / T \<le> (T - 1) / T" using Tpos by (simp add: divide_right_mono)
  also have "(T - 1) / T = 1 - I" using Tpos by (simp add: I_def field_simps)
  finally have m1: "M \<le> 1 - I" by (simp only: M_def)
  have lo: "of_int N - 1 \<le> v" using ve' m0 by linarith
  have hi: "v < of_int N + 1" using ve' m1 inv by linarith
  have "of_int (N - 1) \<le> v" using lo by simp
  then have "N - 1 \<le> \<lfloor>v\<rfloor>" by (simp only: le_floor_iff)
  moreover have "v < of_int (N + 1)" using hi by simp
  then have "\<lfloor>v\<rfloor> < N + 1" by (simp only: floor_less_iff)
  then have fl_le: "\<lfloor>v\<rfloor> \<le> N" by simp
  moreover have "\<lfloor>v\<rfloor> = N" if nd: "\<not> t dvd 100 * w"
  proof -
    have "m \<noteq> 0" using nd by (auto simp: m_def dvd_eq_mod_eq_0)
    then have "1 \<le> m" using m(1) by simp
    then have "(of_int 1 :: rat) \<le> of_int m" by (simp only: of_int_le_iff)
    then have "1 / T \<le> of_int m / T" using Tpos by (simp add: divide_right_mono)
    then have "I \<le> M" by (simp only: I_def M_def)
    then have "of_int N \<le> v" using ve' inv by linarith
    then have "N \<le> \<lfloor>v\<rfloor>" by (simp only: le_floor_iff)
    with fl_le show ?thesis by simp
  qed
  ultimately show ?thesis unfolding cs N_def by blast
qed

lemma py_round_near: "2 * \<bar>of_int (py_round x) - val x\<bar> \<le> 1"
proof -
  define d :: rat where "d = of_int (den x)"
  have dpos: "0 < d" by (simp add: d_def den_pos)
  have "2 * \<bar>rne_div (num x) (den x) * den x - num x\<bar> \<le> den x"
    using den_pos by (rule rne_div_int)
  then have "(of_int (2 * \<bar>rne_div (num x) (den x) * den x - num x\<bar>) :: rat) \<le> of_int (den x)"
    by (simp only: of_int_le_iff)
  then have "2 * \<bar>of_int (py_round x) * d - of_int (num x)\<bar> \<le> d"
    by (simp add: py_round_def d_def)
  moreover have "of_int (py_round x) * d - of_int (num x) = (of_int (py_round x) - val x) * d"
    using dpos by (simp add: val_num_den d_def field_simps)
  ultimately have "2 * \<bar>of_int (py_round x) - val x\<bar> * d \<le> 1 * d"
    using dpos by (simp add: abs_mult)
  then show ?thesis using dpos by (simp only: mult_le_cancel_right)
qed

lemma py_round_tie_even:
  assumes "2 * \<bar>of_int (py_round x) - val x\<bar> = 1" shows "even (py_round x)"
proof -
  define d :: rat where "d = of_int (den x)"
  have dpos: "0 < d" by (simp add: d_def den_pos)
  have "of_int (py_round x) * d - of_int (num x) = (of_int (py_round x) - val x) * d"
    using dpos by (simp add: val_num_den d_def field_simps)
  then have "2 * \<bar>of_int (py_round x) * d - of_int (num x)\<bar> = d"
    using assms dpos by (simp add: abs_mult)
  then have "(of_int (2 * \<bar>rne_div (num x) (den x) * den x - num x\<bar>) :: rat) = of_int (den x)"
    by (simp add: py_round_def d_def)
  then have "2 * \<bar>rne_div (num x) (den x) * den x - num x\<bar> = den x"
    by (simp only: of_int_eq_iff)
  with den_pos show ?thesis unfolding py_round_def by (rule rne_div_even)
qed
lemma pow_m17: "(2::rat) powi (- 17) = 1 / 131072"
  by (simp add: power_int_minus divide_simps)

text \<open>\<open>round(s / 10)\<close> is the exact quotient rounded to the nearest integer, ties to even.\<close>

lemma py_round_tenth:
  assumes "\<bar>s\<bar> < 2 ^ 40"
  defines "r \<equiv> py_round (of_ratio s 10)"
  shows "\<bar>10 * r - s\<bar> \<le> 5 \<and> (\<bar>10 * r - s\<bar> = 5 \<longrightarrow> even r)"
proof -
  define v where "v = val (of_ratio s 10)"
  define S :: rat where "S = of_int s"
  define Rr :: rat where "Rr = of_int r"
  have near: "2 * \<bar>Rr - v\<bar> \<le> 1" unfolding Rr_def r_def v_def by (rule py_round_near)
  have "(of_int \<bar>s\<bar> :: rat) < of_int (2 ^ 40)" using assms(1) by (simp only: of_int_less_iff)
  then have Sb: "\<bar>S\<bar> < 1099511627776" by (simp add: S_def)
  then have b: "\<bar>of_int s\<bar> < of_int 10 * (2::rat) powi 37" by (simp add: S_def)
  have tenr: "(of_int (10 * r - s) :: rat) = 10 * Rr - S" by (simp add: Rr_def S_def)
  show ?thesis
  proof (cases "s mod 10 = 5")
    case True
    have "\<bar>s\<bar> mod 10 = 5" using True by (cases "0 \<le> s") (simp_all add: abs_if zmod_zminus1_eq_if)
    then have "5 dvd \<bar>s\<bar>" by presburger
    then have "5 * 2 dvd \<bar>s\<bar> * 2 ^ nat (53 - 37)" by (intro mult_dvd_mono) simp_all
    then have dv: "(10::int) dvd \<bar>s\<bar> * 2 ^ nat (53 - 37)" by simp
    have "val (of_ratio s 10) = of_int s / of_int 10"
      using b dv by (intro of_ratio_exact[where K = 37]) simp_all
    then have v: "v = S / 10" by (simp add: v_def S_def)
    have n2: "\<bar>10 * Rr - S\<bar> \<le> 5" using near unfolding v by (simp add: abs_le_iff field_simps)
    then have "\<bar>(of_int (10 * r - s) :: rat)\<bar> \<le> of_int 5" by (simp only: tenr of_int_numeral)
    then have c1: "\<bar>10 * r - s\<bar> \<le> 5" by (simp only: of_int_abs[symmetric] of_int_le_iff)
    have c2: "even r" if "\<bar>10 * r - s\<bar> = 5"
    proof -
      have "(of_int \<bar>10 * r - s\<bar> :: rat) = of_int 5" using that by (rule arg_cong)
      then have "\<bar>10 * Rr - S\<bar> = 5" by (simp add: tenr[symmetric])
      then have "2 * \<bar>Rr - v\<bar> = 1" unfolding v by (simp add: abs_if field_simps split: if_splits)
      then show ?thesis unfolding Rr_def r_def v_def by (rule py_round_tie_even)
    qed
    from c1 c2 show ?thesis by blast
  next
    case False
    have "\<bar>val (of_ratio s 10) - of_int s / of_int 10\<bar> \<le> 2 powi (37 - 54)"
      using b by (intro of_ratio_err) simp_all
    then have e: "\<bar>v - S / 10\<bar> \<le> 1 / 131072" by (simp add: v_def S_def pow_m17)
    have n1: "\<bar>Rr - v\<bar> \<le> 1 / 2" using near by simp
    have "\<bar>10 * Rr - S\<bar> < 6" using n1 e unfolding abs_le_iff abs_less_iff by linarith
    then have "\<bar>(of_int (10 * r - s) :: rat)\<bar> < of_int 6" by (simp only: tenr of_int_numeral)
    then have "\<bar>10 * r - s\<bar> < 6" by (simp only: of_int_abs[symmetric] of_int_less_iff)
    moreover have "\<bar>10 * r - s\<bar> \<noteq> 5" using False by presburger
    ultimately show ?thesis by simp
  qed
qed

text \<open>Some doubles, evaluated.\<close>

lemmas float_eval = num_def den_def rne_div_def scale_le_def ratio_expo_def ratio_mant_def
  of_ratio_def float_of_int_def Let_def compute_floorlog

lemma half_eval: "of_ratio 50 100 = Double 4503599627370496 (- 53)"
  by (simp add: float_eval)

lemma f80_eval: "float_of_int 80 = Double 5629499534213120 (- 46)"
  by (simp add: float_eval)

lemma f90_eval: "float_of_int 90 = Double 6333186975989760 (- 46)"
  by (simp add: float_eval)

lemma f40_eval:
  "fmul (Double 5629499534213120 (- 46)) (Double 4503599627370496 (- 53))
   = Double 5629499534213120 (- 47)"
  by (simp add: fmul_def float_eval)

lemma f45_eval:
  "fmul (Double 6333186975989760 (- 46)) (Double 4503599627370496 (- 53))
   = Double 6333186975989760 (- 47)"
  by (simp add: fmul_def float_eval)

lemma f0_40_eval:
  "fadd (Double 0 0) (Double 5629499534213120 (- 47)) = Double 5629499534213120 (- 47)"
  by (simp add: fadd_def float_eval)

lemma f85_eval:
  "fadd (Double 5629499534213120 (- 47)) (Double 6333186975989760 (- 47))
   = Double 5981343255101440 (- 46)"
  by (simp add: fadd_def float_eval)

lemma round_85_eval: "py_round (Double 5981343255101440 (- 46)) = 85"
  by (simp add: py_round_def float_eval)

section \<open>Grades\<close>

lemma score_to_grade_lookup: "score_to_grade s = spec_grade grade_table s"
  by (simp add: score_to_grade_def grade_table_def)

lemma get_grade_lookup: "get_grade a = spec_grade grade_table (get_overall_score a)"
  by (simp add: get_grade_def grade_table_def Let_def)

lemma grade_boundaries:
  "score_to_grade 96 = ''A'' \<and> score_to_grade 97 = ''A+''
   \<and> score_to_grade 59 = ''F'' \<and> score_to_grade 60 = ''D-''"
  by (simp add: score_to_grade_def)

text \<open>
  C3.  For every integer score, both grade functions (\<open>ScoreCalculator.score_to_grade\<close> and
  \<open>WebsiteAudit.get_grade\<close>, the latter on the overall score) are the ordered lookup in the
  13-bucket threshold table: at least 97 is A+, 93 A, 90 A-, 87 B+, 83 B, 80 B-, 77 C+, 73 C,
  70 C-, 67 D+, 63 D, 60 D-, and F below.  In particular 96 is A, 97 is A+, 59 is F, 60 is D-.
\<close>

theorem grade_is_threshold_lookup:
  "score_to_grade s = spec_grade grade_table s
   \<and> get_grade a = spec_grade grade_table (get_overall_score a)
   \<and> score_to_grade 96 = ''A'' \<and> score_to_grade 97 = ''A+''
   \<and> score_to_grade 59 = ''F'' \<and> score_to_grade 60 = ''D-''"
  using score_to_grade_lookup get_grade_lookup grade_boundaries by blast

section \<open>The weighted average\<close>

lemma weighted_average_example: "weighted_average [80, 90] [50, 50] = Inr 85"
  by (simp add: weighted_average_def weight_fraction_def half_eval f80_eval f90_eval
        f40_eval f45_eval f0_40_eval f85_eval round_85_eval)

text \<open>
  C8.  \<open>weighted_average([80, 90], [50, 50])\<close> returns 85, and for every pair of lists of
  different lengths \<open>weighted_average\<close> raises \<open>ValueError\<close>: no input is truncated.
\<close>

theorem weighted_average_checks_lengths:
  "weighted_average [80, 90] [50, 50] = Inr 85
   \<and> (length scores \<noteq> length weights \<longrightarrow> weighted_average scores weights = Inl ValueError)"
  using weighted_average_example by (simp add: weighted_average_def)

theorem weighted_average_checks_lengths_witness:
  "length [80::int] \<noteq> length [50, 50::int] \<and> weighted_average [80] [50, 50] = Inl ValueError"
  using weighted_average_checks_lengths [of "[80]" "[50, 50]"] by simp

text \<open>
  C10.  For every pair of non-empty lists of equal length whose weights sum to 0,
  \<open>weighted_average\<close> raises \<open>ZeroDivisionError\<close>: the normalisation divides by the sum.
\<close>

theorem weighted_average_zero_sum:
  "length scores = length weights \<Longrightarrow> scores \<noteq> [] \<Longrightarrow> sum_list weights = 0
   \<Longrightarrow> weighted_average scores weights = Inl ZeroDivisionError"
  by (simp add: weighted_average_def)

theorem weighted_average_zero_sum_witness:
  "length [80, 90::int] = length [5, - 5::int] \<and> [80, 90::int] \<noteq> [] \<and> sum_list [5, - 5::int] = 0
   \<and> weighted_average [80, 90] [5, - 5] = Inl ZeroDivisionError"
  using weighted_average_zero_sum [of "[80, 90]" "[5, - 5]"] by simp

section \<open>The range of the category scores\<close>

lemma score_mk_result: "score (mk_result s f r d) = s"
  by (simp add: mk_result_def)

lemma in_range_mk_result: "score_in_range (mk_result s f r d) \<longleftrightarrow> 0 \<le> s \<and> s \<le> 100"
  by (simp add: score_in_range_def mk_result_def)

lemma title_length_score_range:
  "0 \<le> fst (title_length_score n)" "fst (title_length_score n) \<le> 100"
  "fst (title_length_score n) \<le> 130"
  by (simp_all add: title_length_score_def)

lemma title_range: "score_in_range (audit_title soup)"
  by (simp add: audit_title_def no_title_def Let_def case_prod_beta in_range_mk_result
        title_length_score_range split: option.split)

lemma desc_length_score_range:
  "0 \<le> fst (desc_length_score n)" "fst (desc_length_score n) \<le> 100"
  "fst (desc_length_score n) \<le> 120"
  by (simp_all add: desc_length_score_def)

lemma meta_range: "score_in_range (audit_meta_description soup)"
  by (simp add: audit_meta_description_def Let_def case_prod_beta in_range_mk_result
        desc_length_score_range split: option.split)

lemma h1_check_range:
  "0 \<le> fst (h1_check hs)" "fst (h1_check hs) \<le> 100" "fst (h1_check hs) \<le> 110"
  by (simp_all add: h1_check_def Let_def)

lemma headings_range: "score_in_range (audit_headings soup)"
  by (simp add: audit_headings_def Let_def case_prod_beta in_range_mk_result h1_check_range)

text \<open>The loop of the images analyzer counts the missing and the blank \<open>alt\<close> attributes.\<close>

lemma count_alt_filter:
  "count_alt imgs (m, e) = (m + int (length (filter alt_missing imgs)),
                             e + int (length (filter alt_blank imgs)))"
  by (induction imgs arbitrary: m e) (auto simp: alt_missing_def alt_blank_def split: option.splits)

lemma alt_partition:
  "length imgs = length (filter alt_missing imgs) + length (filter alt_blank imgs)
                 + length (filter alt_text imgs)"
  by (induction imgs) (auto simp: alt_missing_def alt_blank_def alt_text_def split: option.splits)

lemma with_alt_eq:
  "int (length imgs) - int (length (filter alt_missing imgs)) - int (length (filter alt_blank imgs))
   = int (length (filter alt_text imgs))"
  using alt_partition[of imgs] by simp

lemma audit_images_score: "score (audit_images soup) = images_score (find_all soup ''img'')"
  by (simp add: audit_images_def images_score_def Let_def count_alt_filter score_mk_result)

lemma images_score_range: "0 \<le> images_score imgs \<and> images_score imgs \<le> 100"
proof (cases "imgs = []")
  case True then show ?thesis by (simp add: images_score_def)
next
  case False
  define c where "c = coverage_score (int (length (filter alt_text imgs))) (int (length imgs))"
  have "length (filter alt_text imgs) \<le> length imgs" by simp
  then have "0 \<le> c \<and> c \<le> 100"
    unfolding c_def using False by (intro coverage_score_range) simp_all
  then show ?thesis
    unfolding images_score_def Let_def with_alt_eq c_def[symmetric] by auto
qed

lemma images_range: "score_in_range (audit_images soup)"
  using images_score_range[of "find_all soup ''img''"]
  by (simp add: score_in_range_def audit_images_score)

lemma mobile_range: "score_in_range (audit_mobile soup resp)"
  by (simp add: audit_mobile_def Let_def case_prod_beta in_range_mk_result split: option.split)

lemma ssl_range_case:
  "case audit_ssl_security w u resp of Inl e \<Rightarrow> True | Inr r \<Rightarrow> score_in_range r"
  by (auto simp add: audit_ssl_security_def Let_def case_prod_beta in_range_mk_result min_def
        split: sum.split)

lemma ssl_range: "audit_ssl_security w u resp = Inr r \<Longrightarrow> score_in_range r"
  using ssl_range_case[of w u resp] by simp

lemma size_penalty_range:
  "0 \<le> fst (size_penalty x)" "fst (size_penalty x) \<le> 100"
  "fst (size_penalty x) \<le> 105" "fst (size_penalty x) \<le> 115"
  by (simp_all add: size_penalty_def)

lemma performance_range: "score_in_range (audit_performance w resp n html)"
  by (simp add: audit_performance_def Let_def case_prod_beta in_range_mk_result size_penalty_range)

lemma links_range_case:
  "case audit_links w soup u of Inl e \<Rightarrow> True | Inr r \<Rightarrow> score_in_range r"
  by (simp add: audit_links_def Let_def case_prod_beta in_range_mk_result split: sum.split)

lemma links_range: "audit_links w soup u = Inr r \<Longrightarrow> score_in_range r"
  using links_range_case[of w soup u] by simp

lemma length_concat_le:
  "(\<And>x. length (f x) \<le> 1) \<Longrightarrow> length (concat (map f xs)) \<le> length xs"
proof (induction xs)
  case Nil then show ?case by simp
next
  case (Cons x xs)
  have "length (f x) \<le> 1" by (rule Cons.prems)
  moreover have "length (concat (map f xs)) \<le> length xs" using Cons.prems by (rule Cons.IH)
  ultimately show ?case by simp
qed

lemma open_graph_range: "score_in_range (audit_open_graph soup)"
proof -
  define found where "found = concat (map (\<lambda>(tag_name, description).
                          case og_content soup tag_name of
                            None \<Rightarrow> [] | Some c \<Rightarrow> [(tag_name, PStr c)]) og_tags)"
  have "length found \<le> length og_tags" unfolding found_def
    by (rule length_concat_le) (simp add: case_prod_beta split: option.split)
  moreover have "length og_tags = 5" by (simp add: og_tags_def)
  ultimately have "0 \<le> coverage_score (int (length found)) (int (length og_tags))
        \<and> coverage_score (int (length found)) (int (length og_tags)) \<le> 100"
    by (intro coverage_score_range) simp_all
  then show ?thesis
    by (simp add: audit_open_graph_def Let_def in_range_mk_result found_def)
qed

lemma schema_range_case:
  "case audit_schema w soup of Inl e \<Rightarrow> True | Inr r \<Rightarrow> score_in_range r"
  by (simp add: audit_schema_def Let_def in_range_mk_result split: sum.split)

lemma schema_range: "audit_schema w soup = Inr r \<Longrightarrow> score_in_range r"
  using schema_range_case[of w soup] by simp

text \<open>What three analyzers return on the example inputs.\<close>

lemma ssl_example:
  "audit_ssl_security example_world u plain_response
   = Inr (mk_result 70
       [''HTTPS is enabled '' @ check_mark, ''Security headers found: 0/5'']
       [''Add Strict-Transport-Security header: HSTS - forces HTTPS connections'',
        ''Add Content-Security-Policy header: CSP - prevents XSS attacks'',
        ''Add X-Frame-Options header: Prevents clickjacking'']
       [(''https'', PBool True), (''found_headers'', PList []),
        (''missing_headers'', PList [PStr ''Strict-Transport-Security'',
           PStr ''Content-Security-Policy'', PStr ''X-Frame-Options'',
           PStr ''X-Content-Type-Options'', PStr ''Referrer-Policy''])])"
  by (simp add: audit_ssl_security_def example_world_def plain_response_def security_headers_def
        header_in_def str_nat.simps)

lemma links_example:
  "audit_links w empty_document u
   = Inr (mk_result 30 [''Found 0 link(s)'', ''No links found on page'']
            [''Add navigation links to help users explore your site''] [])"
  by (simp add: audit_links_def empty_document_def str_int_def str_nat.simps)

lemma schema_example:
  "audit_schema w empty_document
   = Inr (mk_result 0 [''Found 0 JSON-LD script(s)'', ''No structured data found'']
            [''Add JSON-LD structured data for better search visibility'',
             ''Consider Organization, WebSite, or Article schema types''] [])"
  by (simp add: audit_schema_def empty_document_def str_nat.simps)

text \<open>
  C1.  For each of the ten analyzers and every input (document, response, world and URL),
  the score of the category result that the analyzer returns is between 0 and 100.  Three
  analyzers can raise instead of returning (security, links, schema); the bound is on
  what they return.
\<close>

theorem analyzer_scores_in_range:
  "score_in_range (audit_title soup)
   \<and> score_in_range (audit_meta_description soup)
   \<and> score_in_range (audit_headings soup)
   \<and> score_in_range (audit_images soup)
   \<and> score_in_range (audit_mobile soup resp)
   \<and> (\<forall>r. audit_ssl_security w u resp = Inr r \<longrightarrow> score_in_range r)
   \<and> score_in_range (audit_performance w resp n html)
   \<and> (\<forall>r. audit_links w soup u = Inr r \<longrightarrow> score_in_range r)
   \<and> score_in_range (audit_open_graph soup)
   \<and> (\<forall>r. audit_schema w soup = Inr r \<longrightarrow> score_in_range r)"
  by (intro conjI allI impI)
     (rule title_range meta_range headings_range images_range mobile_range
           performance_range open_graph_range
      | erule ssl_range links_range schema_range)+

theorem analyzer_scores_in_range_witness:
  "(case audit_ssl_security example_world ''https://example.com'' plain_response of
      Inl e \<Rightarrow> False | Inr r \<Rightarrow> score_in_range r)
   \<and> (case audit_links example_world empty_document ''https://example.com'' of
      Inl e \<Rightarrow> False | Inr r \<Rightarrow> score_in_range r)
   \<and> (case audit_schema example_world empty_document of
      Inl e \<Rightarrow> False | Inr r \<Rightarrow> score_in_range r)
   \<and> score_in_range (audit_title empty_document)
   \<and> score_in_range (audit_images empty_document)"
  using analyzer_scores_in_range [of empty_document plain_response example_world
      "''https://example.com''" 0 "[]"]
  by (simp add: ssl_example links_example schema_example)

end
